theory Spec2Isabelle
  imports Complex_Main "HOL-Library.Sublist" "HOL-Library.AList"
begin

section \<open>Python values, errors and array primitives\<close>

text \<open>
  The exceptions the two source files can raise.  Every raise of the source is an
  \<open>Inl\<close> branch of the model; a returned value is \<open>Inr\<close>.
  Floating-point numbers are idealised as real numbers throughout.
\<close>

datatype py_error = IndexError | KeyError | ValueError | OSError

definition bind_err :: "py_error + 'a \<Rightarrow> ('a \<Rightarrow> py_error + 'b) \<Rightarrow> py_error + 'b" where
  "bind_err m f = (case m of Inl e \<Rightarrow> Inl e | Inr v \<Rightarrow> f v)"

text \<open>A \<open>for\<close> loop over a list whose body may raise: the first error ends the loop.\<close>

fun for_loop :: "('s \<Rightarrow> 'a \<Rightarrow> py_error + 's) \<Rightarrow> 'a list \<Rightarrow> 's \<Rightarrow> py_error + 's" where
  "for_loop body [] s = Inr s"
| "for_loop body (a # as) s = bind_err (body s a) (for_loop body as)"

type_synonym matrix = "real list list"

text \<open>\<open>np.zeros((r, c))\<close>: a negative dimension raises \<open>ValueError\<close>.\<close>

definition zeros :: "int \<Rightarrow> int \<Rightarrow> py_error + matrix" where
  "zeros r c = (if r < 0 \<or> c < 0 then Inl ValueError
                else Inr (replicate (nat r) (replicate (nat c) 0)))"

text \<open>
  numpy index normalisation on an axis of size \<open>n\<close>: \<open>-n \<le> i < n\<close> is valid and a
  negative index counts from the end; everything else raises \<open>IndexError\<close>.
\<close>

definition norm_index :: "nat \<Rightarrow> int \<Rightarrow> py_error + nat" where
  "norm_index n i =
     (if 0 \<le> i \<and> i < int n then Inr (nat i)
      else if - int n \<le> i \<and> i < 0 then Inr (nat (i + int n))
      else Inl IndexError)"

text \<open>\<open>m[i,:]\<close> read and \<open>m[i,:] = row\<close> write.\<close>

definition get_row :: "matrix \<Rightarrow> int \<Rightarrow> py_error + real list" where
  "get_row m i = bind_err (norm_index (length m) i) (\<lambda>k. Inr (m ! k))"

definition set_row :: "matrix \<Rightarrow> int \<Rightarrow> real list \<Rightarrow> py_error + matrix" where
  "set_row m i row = bind_err (norm_index (length m) i) (\<lambda>k. Inr (m[k := row]))"

section \<open>legendre\_polynomials.py\<close>

text \<open>
  The argument \<open>x\<close> is a scalar (\<open>np.ndim(x) = 0\<close>, so \<open>nx = 1\<close>) or a one-dimensional
  array (\<open>nx = np.shape(x)[0]\<close>).  \<open>xvals\<close> is \<open>x\<close> broadcast to the row shape \<open>(nx,)\<close>.
  \<open>lmax\<close> is the integer that \<open>np.int(lmax)\<close> yields; the element type \<open>ASTYPE\<close> plays
  no part.
\<close>

datatype xarg = Scalar real | Array "real list"

fun nx_of :: "xarg \<Rightarrow> nat" where
  "nx_of (Scalar v) = 1"
| "nx_of (Array xs) = length xs"

fun xvals :: "xarg \<Rightarrow> real list" where
  "xvals (Scalar v) = [v]"
| "xvals (Array xs) = xs"

text \<open>Body of the loop of lines 60-63, for one degree \<open>l\<close>.\<close>

definition recurrence_step :: "real list \<Rightarrow> matrix \<times> matrix \<Rightarrow> nat \<Rightarrow> py_error + matrix \<times> matrix" where
  "recurrence_step xs st l =
     (case st of (ptemp, pl) \<Rightarrow>
        bind_err (get_row ptemp (int l - 1)) (\<lambda>p1.
        bind_err (get_row ptemp (int l - 2)) (\<lambda>p2.
        bind_err (set_row ptemp (int l)
                    (map (\<lambda>(x, a, b). (((2 * real l) - 1) / real l) * x * a - ((real l - 1) / real l) * b)
                         (zip xs (zip p1 p2)))) (\<lambda>ptemp'.
        bind_err (get_row ptemp' (int l)) (\<lambda>pt.
        bind_err (set_row pl (int l) (map (\<lambda>v. sqrt ((2 * real l) + 1) * v) pt)) (\<lambda>pl'.
        Inr (ptemp', pl')))))))"

text \<open>
  Body of the loop of lines 67-69, for one degree \<open>l\<close>.  The formula is meant for
  \<open>x\<close> in the open interval \<open>(-1, 1)\<close>: at \<open>x = 1\<close> and \<open>x = -1\<close> numpy divides by
  zero and stores a non-finite value, which the real division of HOL does not show.
\<close>

definition derivative_step :: "real list \<Rightarrow> matrix \<Rightarrow> matrix \<Rightarrow> nat \<Rightarrow> py_error + matrix" where
  "derivative_step xs pl dpl l =
     (let fl = sqrt (((real l)\<^sup>2 * (2 * real l + 1)) / (2 * real l - 1)) in
        bind_err (get_row pl (int l)) (\<lambda>q1.
        bind_err (get_row pl (int l - 1)) (\<lambda>q0.
        set_row dpl (int l)
          (map (\<lambda>(x, a, b). (1 / sqrt (1 - x\<^sup>2)) * (real l * x * a - fl * b))
               (zip xs (zip q1 q0))))))"

text \<open>\<open>range(a, b)\<close> for integer bounds, as the list of its (non-negative) members.\<close>

definition py_range :: "nat \<Rightarrow> int \<Rightarrow> nat list" where
  "py_range a b = [a ..< nat b]"

definition legendre_polynomials :: "int \<Rightarrow> xarg \<Rightarrow> py_error + matrix \<times> matrix" where
  "legendre_polynomials lmax x =
     (let nx = nx_of x; xs = xvals x in
        bind_err (zeros (lmax + 1) (int nx)) (\<lambda>pl.
        bind_err (zeros (lmax + 1) (int nx)) (\<lambda>ptemp.
        bind_err (set_row ptemp 0 (replicate nx 1)) (\<lambda>ptemp.
        bind_err (set_row ptemp 1 xs) (\<lambda>ptemp.
        bind_err (get_row ptemp 0) (\<lambda>r0.
        bind_err (set_row pl 0 r0) (\<lambda>pl.
        bind_err (get_row ptemp 1) (\<lambda>r1.
        bind_err (set_row pl 1 (map (\<lambda>v. sqrt 3 * v) r1)) (\<lambda>pl.
        bind_err (for_loop (recurrence_step xs) (py_range 2 (lmax + 1)) (ptemp, pl)) (\<lambda>(ptemp, pl).
        bind_err (zeros (lmax + 1) (int nx)) (\<lambda>dpl.
        bind_err (for_loop (derivative_step xs pl) (py_range 1 (lmax + 1)) dpl) (\<lambda>dpl.
        Inr (pl, dpl)))))))))))))"

text \<open>
  The recurrence in the words of the specification: \<open>ptemp[0] = 1\<close>, \<open>ptemp[1] = x\<close>,
  \<open>ptemp[l] = ((2l-1)/l) * x * ptemp[l-1] - ((l-1)/l) * ptemp[l-2]\<close>; the normalised value
  \<open>pl[l] = sqrt(2l+1) * ptemp[l]\<close> for \<open>l \<ge> 1\<close> and \<open>pl[0] = 1\<close>; and the derivative
  \<open>dpl[l] = (1/sqrt(1-x\<^sup>2)) * (l*x*pl[l] - fl*pl[l-1])\<close> with
  \<open>fl = sqrt(l\<^sup>2 * (2l+1) / (2l-1))\<close> for \<open>l \<ge> 1\<close> and \<open>dpl[0] = 0\<close>.
\<close>

fun ptemp_spec :: "nat \<Rightarrow> real \<Rightarrow> real" where
  "ptemp_spec 0 x = 1"
| "ptemp_spec (Suc 0) x = x"
| "ptemp_spec (Suc (Suc n)) x =
     ((2 * real (Suc (Suc n)) - 1) / real (Suc (Suc n))) * x * ptemp_spec (Suc n) x
       - ((real (Suc (Suc n)) - 1) / real (Suc (Suc n))) * ptemp_spec n x"

definition pl_spec :: "nat \<Rightarrow> real \<Rightarrow> real" where
  "pl_spec l x = (if l = 0 then 1 else sqrt (2 * real l + 1) * ptemp_spec l x)"

definition fl_spec :: "nat \<Rightarrow> real" where
  "fl_spec l = sqrt (((real l)\<^sup>2 * (2 * real l + 1)) / (2 * real l - 1))"

definition dpl_spec :: "nat \<Rightarrow> real \<Rightarrow> real" where
  "dpl_spec l x =
     (if l = 0 then 0
      else (1 / sqrt (1 - x\<^sup>2)) * (real l * x * pl_spec l x - fl_spec l * pl_spec (l - 1) x))"

text \<open>
  The matrix whose rows below \<open>n\<close> hold \<open>f l\<close> at every evaluation point and whose
  remaining rows are still zero: the shape of the arrays while the loops run.
\<close>

definition rows_upto :: "(nat \<Rightarrow> real \<Rightarrow> real) \<Rightarrow> real list \<Rightarrow> nat \<Rightarrow> nat \<Rightarrow> matrix" where
  "rows_upto f xs N n =
     map (\<lambda>l. if l < n then map (f l) xs else replicate (length xs) 0) [0..<N]"

definition shape :: "matrix \<Rightarrow> nat \<Rightarrow> nat \<Rightarrow> bool" where
  "shape m r c = (length m = r \<and> list_all (\<lambda>row. length row = c) m)"

section \<open>read\_ICGEM\_harmonics.py\<close>

subsection \<open>Strings\<close>

text \<open>Characters are ASCII; \<open>str.isspace\<close> on that range.\<close>

definition is_space :: "char \<Rightarrow> bool" where
  "is_space c = (c \<in> set [CHR '' '', CHR 0x09, CHR 0x0A, CHR 0x0B, CHR 0x0C, CHR 0x0D,
                            CHR 0x1C, CHR 0x1D, CHR 0x1E, CHR 0x1F])"

definition is_digit :: "char \<Rightarrow> bool" where
  "is_digit c = (c \<in> set ''0123456789'')"

text \<open>The value of a decimal digit: its position in \<open>0123456789\<close>.\<close>

definition digit_val :: "char \<Rightarrow> int" where
  "digit_val c = int (length (takeWhile (\<lambda>d. d \<noteq> c) ''0123456789''))"

definition digits_value :: "string \<Rightarrow> int" where
  "digits_value s = foldl (\<lambda>a c. 10 * a + digit_val c) 0 s"

text \<open>\<open>sub in s\<close> for strings.\<close>

fun py_in :: "string \<Rightarrow> string \<Rightarrow> bool" where
  "py_in sub [] = (sub = [])"
| "py_in sub (c # cs) = (prefix sub (c # cs) \<or> py_in sub cs)"

text \<open>\<open>os.path.basename\<close>: what follows the last slash.\<close>

definition basename :: "string \<Rightarrow> string" where
  "basename p = rev (takeWhile (\<lambda>c. c \<noteq> CHR ''/'') (rev p))"

text \<open>\<open>str.split()\<close>: the maximal runs of non-whitespace characters.\<close>

fun split_aux :: "string \<Rightarrow> string \<Rightarrow> string list" where
  "split_aux [] cur = (if cur = [] then [] else [rev cur])"
| "split_aux (c # cs) cur =
     (if is_space c then (if cur = [] then split_aux cs [] else rev cur # split_aux cs [])
      else split_aux cs (c # cur))"

definition py_split :: "string \<Rightarrow> string list" where
  "py_split s = split_aux s []"

text \<open>\<open>str.strip()\<close>, as \<open>int()\<close> applies it to its argument.\<close>

definition py_strip :: "string \<Rightarrow> string" where
  "py_strip s = rev (dropWhile is_space (rev (dropWhile is_space s)))"

text \<open>
  \<open>int(s)\<close> (which \<open>np.int\<close> is): surrounding whitespace, an optional sign, then decimal
  digits, where single underscores may separate digits.  Anything else raises \<open>ValueError\<close>.
\<close>

fun int_body_ok :: "string \<Rightarrow> bool" where
  "int_body_ok [] = False"
| "int_body_ok [c] = is_digit c"
| "int_body_ok (c # d # cs) =
     (is_digit c \<and> (if d = CHR ''_'' then int_body_ok cs else int_body_ok (d # cs)))"

definition int_body :: "string \<Rightarrow> py_error + int" where
  "int_body s = (if int_body_ok s then Inr (digits_value (filter is_digit s)) else Inl ValueError)"

definition py_int :: "string \<Rightarrow> py_error + int" where
  "py_int s =
     (case py_strip s of
        [] \<Rightarrow> Inl ValueError
      | c # cs \<Rightarrow>
          if c = CHR ''-'' then bind_err (int_body cs) (\<lambda>v. Inr (- v))
          else if c = CHR ''+'' then int_body cs
          else int_body (c # cs))"

text \<open>\<open>xs[i]\<close> on a Python list, and \<open>xs[:k]\<close>.\<close>

definition py_index :: "'a list \<Rightarrow> int \<Rightarrow> py_error + 'a" where
  "py_index xs i = bind_err (norm_index (length xs) i) (\<lambda>k. Inr (xs ! k))"

definition py_take :: "int \<Rightarrow> 'a list \<Rightarrow> 'a list" where
  "py_take k xs = (if 0 \<le> k then take (nat k) xs else take (nat (int (length xs) + k)) xs)"

text \<open>\<open>list.pop()\<close>: the last element, \<open>IndexError\<close> on an empty list.\<close>

definition pop :: "'a list \<Rightarrow> py_error + 'a" where
  "pop xs = (if xs = [] then Inl IndexError else Inr (last xs))"

subsection \<open>The regular expressions of the three file-name conventions\<close>

text \<open>
  The fragment of \<open>re\<close> that the three patterns use: a literal, \<open>.*?\<close>, \<open>\d+\<close>,
  concatenation, alternation, a capturing group, a greedy \<open>?\<close> and \<open>$\<close>.
  \<open>rx_match r s\<close> lists every way \<open>r\<close> matches a prefix of \<open>s\<close>, as the captured
  groups and the unread rest, in the order in which the backtracking matcher tries them;
  its head is the match \<open>re\<close> finds.  A group that takes no part in a match is the empty
  string, as \<open>findall\<close> reports it.
\<close>

datatype rx = Lit string | LazyAny | Digits | Seq rx rx | Alt rx rx | Group rx | Opt rx | Eol

fun ngroups :: "rx \<Rightarrow> nat" where
  "ngroups (Seq a b) = ngroups a + ngroups b"
| "ngroups (Alt a b) = ngroups a + ngroups b"
| "ngroups (Group a) = Suc (ngroups a)"
| "ngroups (Opt a) = ngroups a"
| "ngroups _ = 0"

fun rx_match :: "rx \<Rightarrow> string \<Rightarrow> (string list \<times> string) list" where
  "rx_match (Lit l) s = (if prefix l s then [([], drop (length l) s)] else [])"
| "rx_match LazyAny s =
     map (\<lambda>k. ([], drop k s)) [0 ..< Suc (length (takeWhile (\<lambda>c. c \<noteq> CHR 0x0A) s))]"
| "rx_match Digits s =
     map (\<lambda>k. ([], drop k s)) (rev [1 ..< Suc (length (takeWhile is_digit s))])"
| "rx_match (Seq a b) s =
     concat (map (\<lambda>(c1, r1). map (\<lambda>(c2, r2). (c1 @ c2, r2)) (rx_match b r1)) (rx_match a s))"
| "rx_match (Alt a b) s =
     map (\<lambda>(c, r). (c @ replicate (ngroups b) [], r)) (rx_match a s) @
     map (\<lambda>(c, r). (replicate (ngroups a) [] @ c, r)) (rx_match b s)"
| "rx_match (Group a) s =
     map (\<lambda>(c, r). (take (length s - length r) s # c, r)) (rx_match a s)"
| "rx_match (Opt a) s = rx_match a s @ [(replicate (ngroups a) [], s)]"
| "rx_match Eol s = (if s = [] \<or> s = [CHR 0x0A] then [([], s)] else [])"

fun seqs :: "rx list \<Rightarrow> rx" where
  "seqs [] = Lit []"
| "seqs [r] = r"
| "seqs (r # rs) = Seq r (seqs rs)"

text \<open>
  \<open>rx.findall(s)\<close>: the groups of the successive non-overlapping matches, scanning from
  the left.  \<open>skip\<close> counts the characters still covered by the previous match.
\<close>

fun scan :: "rx \<Rightarrow> string \<Rightarrow> nat \<Rightarrow> string list list" where
  "scan r [] skip =
     (if skip = 0 then (case rx_match r [] of [] \<Rightarrow> [] | (c, rest) # _ \<Rightarrow> [c]) else [])"
| "scan r (x # xs) skip =
     (if 0 < skip then scan r xs (skip - 1)
      else case rx_match r (x # xs) of
             [] \<Rightarrow> scan r xs 0
           | (c, rest) # _ \<Rightarrow> c # scan r xs (length (x # xs) - length rest - 1))"

definition findall :: "rx \<Rightarrow> string \<Rightarrow> string list list" where
  "findall r s = scan r s 0"

definition suffixes_rx :: rx where
  "suffixes_rx = Alt (Lit ''.gz'') (Alt (Lit ''.gfc'') (Lit ''.txt''))"

text \<open>\<^verbatim>\<open>(.*?)-(Grace_operational|Grace2018)_(.*?)_(\d+)-(\d+)(\.gz|\.gfc|\.txt)\<close>\<close>

definition regex_pattern_ITSG :: rx where
  "regex_pattern_ITSG =
     seqs [Group LazyAny, Lit ''-'', Group (Alt (Lit ''Grace_operational'') (Lit ''Grace2018'')),
           Lit ''_'', Group LazyAny, Lit ''_'', Group Digits, Lit ''-'', Group Digits,
           Group suffixes_rx]"

text \<open>\<^verbatim>\<open>(SW)_(.*?)_(EGF_SHA_2)__(.*?)_(.*?)_(.*?)(\.gz|\.gfc|\.txt)\<close>\<close>

definition regex_pattern_SW :: rx where
  "regex_pattern_SW =
     seqs [Group (Lit ''SW''), Lit ''_'', Group LazyAny, Lit ''_'', Group (Lit ''EGF_SHA_2''),
           Lit ''__'', Group LazyAny, Lit ''_'', Group LazyAny, Lit ''_'', Group LazyAny,
           Group suffixes_rx]"

text \<open>\<^verbatim>\<open>(.*?)-2_(\d+)-(\d+)_(.*?)_(COSTG)_(.*?)_(\d+)(.*?)(\.gz|\.gfc|\.txt)?$\<close>\<close>

definition regex_pattern_COSTG :: rx where
  "regex_pattern_COSTG =
     seqs [Group LazyAny, Lit ''-2_'', Group Digits, Lit ''-'', Group Digits, Lit ''_'',
           Group LazyAny, Lit ''_'', Group (Lit ''COSTG''), Lit ''_'', Group LazyAny, Lit ''_'',
           Group Digits, Group LazyAny, Opt (Group suffixes_rx), Eol]"

subsection \<open>Temporal metadata from the file name (lines 107-190)\<close>

text \<open>Lines 147-152: the days per year and per month, by \<open>year % 4\<close>.\<close>

definition dpy :: "int \<Rightarrow> real" where
  "dpy year = (if year mod 4 = 0 then 366 else 365)"

definition dpm :: "int \<Rightarrow> int list" where
  "dpm year = (if year mod 4 = 0 then [31, 29, 31, 30, 31, 30, 31, 31, 30, 31, 30, 31]
               else [31, 28, 31, 30, 31, 30, 31, 31, 30, 31, 30, 31])"

text \<open>Lines 154-158.\<close>

definition start_day :: "int \<Rightarrow> int \<Rightarrow> int" where
  "start_day year month = sum_list (py_take (month - 1) (dpm year)) + 1"

definition end_day :: "int \<Rightarrow> int \<Rightarrow> int" where
  "end_day year month = sum_list (py_take month (dpm year))"

definition mid_day :: "int \<Rightarrow> int \<Rightarrow> real" where
  "mid_day year month = (real_of_int (start_day year month) + real_of_int (end_day year month)) / 2"

text \<open>The expression of lines 162-164 (and 165-167, 185-190) for a year and a day of the year.\<close>

definition julian_date :: "real \<Rightarrow> real \<Rightarrow> real" where
  "julian_date year day =
     367 * year - real_of_int \<lfloor>7 * year / 4\<rfloor>
       - real_of_int \<lfloor>3 * (real_of_int \<lfloor>(year - 8 / 7) / 100\<rfloor> + 1) / 4\<rfloor>
       + real_of_int \<lfloor>275 / 9 :: real\<rfloor> + day + 17210285 / 10"

text \<open>Lines 144-167: the values stored under \<open>time\<close>, \<open>start\<close> and \<open>end\<close>.\<close>

definition graz_swarm_dates :: "int \<Rightarrow> int \<Rightarrow> real \<times> real \<times> real" where
  "graz_swarm_dates year month =
     (real_of_int year + mid_day year month / dpy year,
      julian_date (real_of_int year) (real_of_int (start_day year month)),
      julian_date (real_of_int year) (real_of_int (end_day year month)))"

text \<open>
  \<open>np.float\<close> of a string that the pattern \<open>\d+\<close> captured, or of a slice of one: an
  integer-valued float, and \<open>ValueError\<close> for the empty slice.
\<close>

definition float_of_digits :: "string \<Rightarrow> py_error + int" where
  "float_of_digits s =
     (if s \<noteq> [] \<and> list_all is_digit s then Inr (digits_value s) else Inl ValueError)"

text \<open>Lines 169-190.\<close>

definition costg_dates :: "int \<Rightarrow> int \<Rightarrow> int \<Rightarrow> int \<Rightarrow> real \<times> real \<times> real" where
  "costg_dates start_yr end_yr sday eday =
     (let end_cyclic = (real_of_int end_yr - real_of_int start_yr) * dpy start_yr + real_of_int eday;
          mid = (real_of_int sday + end_cyclic) / 2
      in (real_of_int start_yr + mid / dpy start_yr,
          julian_date (real_of_int start_yr) (real_of_int sday),
          julian_date (real_of_int end_yr) (real_of_int eday)))"

text \<open>
  Lines 107-190.  The substring tests are made on the whole path, the pattern is applied to
  the base name; the tuple assignment raises \<open>ValueError\<close> on a wrong number of groups.
  The result is \<open>None\<close> for a plain ICGEM file, which stores no date.
\<close>

definition filename_dates :: "string \<Rightarrow> py_error + (real \<times> real \<times> real) option" where
  "filename_dates model_file =
     (if py_in ''ITSG'' model_file then
        bind_err (pop (findall regex_pattern_ITSG (basename model_file))) (\<lambda>groups.
          case groups of
            [PFX, SAT, trunc, year, month, SFX] \<Rightarrow>
              bind_err (py_int year) (\<lambda>year.
              bind_err (py_int month) (\<lambda>month.
              Inr (Some (graz_swarm_dates year month))))
          | _ \<Rightarrow> Inl ValueError)
      else if py_in ''SW_'' model_file then
        bind_err (pop (findall regex_pattern_SW (basename model_file))) (\<lambda>groups.
          case groups of
            [SAT, tmp, PROD', start_date, end_date, RL, SFX] \<Rightarrow>
              bind_err (py_int (take 4 start_date)) (\<lambda>year.
              bind_err (py_int (take 2 (drop 4 start_date))) (\<lambda>month.
              Inr (Some (graz_swarm_dates year month))))
          | _ \<Rightarrow> Inl ValueError)
      else if py_in ''COSTG'' model_file then
        bind_err (pop (findall regex_pattern_COSTG (basename model_file))) (\<lambda>groups.
          case groups of
            [PFX, SD, ED, N, PRC, F1, DRL, F2, SFX] \<Rightarrow>
              bind_err (float_of_digits (take 4 SD)) (\<lambda>start_yr.
              bind_err (float_of_digits (take 4 ED)) (\<lambda>end_yr.
              bind_err (float_of_digits (drop 4 SD)) (\<lambda>sday.
              bind_err (float_of_digits (drop 4 ED)) (\<lambda>eday.
              Inr (Some (costg_dates start_yr end_yr sday eday))))))
          | _ \<Rightarrow> Inl ValueError)
      else Inr None)"

subsection \<open>The reader (lines 192-235)\<close>

text \<open>
  What the reader takes from outside: the lines of the file at a path (\<open>None\<close> when it
  cannot be opened), \<open>np.float\<close> on a token (\<open>None\<close> when it is no number), and the
  collaborator \<open>calculate_tidal_offset\<close>, which is not part of these sources.
\<close>

record env =
  file_lines :: "string \<Rightarrow> string list option"
  parse_float :: "string \<Rightarrow> real option"
  calculate_tidal_offset :: "string \<Rightarrow> real \<Rightarrow> real \<Rightarrow> string \<Rightarrow> real"

text \<open>
  The returned dictionary.  The keys written from header lines begin with one of the seven
  header keywords, so they never coincide with the fixed keys; they are kept, in insertion
  order, in \<open>header\<close>.  A key that is absent is \<open>None\<close>.
\<close>

record model_input =
  time :: "real option"
  start :: "real option"
  end' :: "real option"
  header :: "(string \<times> string) list"
  clm :: matrix
  slm :: matrix
  eclm :: "matrix option"
  eslm :: "matrix option"

definition open_lines :: "env \<Rightarrow> string \<Rightarrow> py_error + string list" where
  "open_lines e model_file =
     (case file_lines e model_file of None \<Rightarrow> Inl OSError | Some ls \<Rightarrow> Inr ls)"

definition np_float :: "env \<Rightarrow> string \<Rightarrow> py_error + real" where
  "np_float e s = (case parse_float e s of None \<Rightarrow> Inl ValueError | Some v \<Rightarrow> Inr v)"

definition lookup :: "(string \<times> string) list \<Rightarrow> string \<Rightarrow> py_error + string" where
  "lookup d k = (case map_of d k of None \<Rightarrow> Inl KeyError | Some v \<Rightarrow> Inr v)"

definition header_parameters :: "string list" where
  "header_parameters = [''modelname'', ''earth_gravity_constant'', ''radius'',
     ''max_degree'', ''errors'', ''norm'', ''tide_system'']"

text \<open>\<open>re.match(parameters_regex, l)\<close>: the line begins with one of the keywords.\<close>

definition is_header :: "string \<Rightarrow> bool" where
  "is_header l = list_ex (\<lambda>k. prefix k l) header_parameters"

text \<open>Lines 200-203, for one header line.\<close>

definition header_step :: "(string \<times> string) list \<Rightarrow> string \<Rightarrow> py_error + (string \<times> string) list" where
  "header_step d line =
     (let line_contents = py_split line in
        bind_err (py_index line_contents 1) (\<lambda>v.
        bind_err (py_index line_contents 0) (\<lambda>k.
        Inr (AList.update k v d))))"

text \<open>Lines 196-203: the dictionary entries written from the header lines.\<close>

definition parse_header :: "string list \<Rightarrow> py_error + (string \<times> string) list" where
  "parse_header file_contents = for_loop header_step (filter is_header file_contents) []"

text \<open>
  Line 205: \<open>not LMAX\<close> holds for \<open>None\<close> and for \<open>0\<close>, and then the header's
  \<open>max_degree\<close> is used.
\<close>

definition truncation_degree :: "int option \<Rightarrow> (string \<times> string) list \<Rightarrow> py_error + int" where
  "truncation_degree LMAX d =
     (case LMAX of
        None \<Rightarrow> bind_err (lookup d ''max_degree'') py_int
      | Some k \<Rightarrow> if k = 0 then bind_err (lookup d ''max_degree'') py_int else Inr k)"

text \<open>\<open>m[i, j]\<close> read and write on a two-dimensional array.\<close>

definition get_item :: "matrix \<Rightarrow> int \<Rightarrow> int \<Rightarrow> py_error + real" where
  "get_item m i j =
     bind_err (norm_index (length m) i) (\<lambda>a.
     bind_err (norm_index (length (m ! a)) j) (\<lambda>b. Inr (m ! a ! b)))"

definition set_item :: "matrix \<Rightarrow> int \<Rightarrow> int \<Rightarrow> real \<Rightarrow> py_error + matrix" where
  "set_item m i j v =
     bind_err (norm_index (length m) i) (\<lambda>a.
     bind_err (norm_index (length (m ! a)) j) (\<lambda>b. Inr (m[a := (m ! a)[b := v]])))"

definition set_item_opt :: "matrix option \<Rightarrow> int \<Rightarrow> int \<Rightarrow> real \<Rightarrow> py_error + matrix option" where
  "set_item_opt mo i j v =
     (case mo of None \<Rightarrow> Inl KeyError
      | Some m \<Rightarrow> bind_err (set_item m i j v) (\<lambda>m'. Inr (Some m')))"

text \<open>\<open>re.sub('d', 'e', line, flags=re.IGNORECASE)\<close>.\<close>

definition sub_d_e :: "string \<Rightarrow> string" where
  "sub_d_e line = map (\<lambda>c. if c = CHR ''d'' \<or> c = CHR ''D'' then CHR ''e'' else c) line"

text \<open>Lines 215-227, for one data line.\<close>

definition data_step :: "env \<Rightarrow> string \<Rightarrow> int \<Rightarrow> model_input \<Rightarrow> string \<Rightarrow> py_error + model_input" where
  "data_step e model_file LMAX mi line =
     (let line_contents = py_split (sub_d_e line) in
        bind_err (bind_err (py_index line_contents 1) py_int) (\<lambda>l1.
        bind_err (bind_err (py_index line_contents 2) py_int) (\<lambda>m1.
        if l1 \<le> LMAX \<and> m1 \<le> LMAX then
          bind_err (bind_err (py_index line_contents 3) (np_float e)) (\<lambda>c.
          bind_err (set_item (clm mi) l1 m1 c) (\<lambda>clm'.
          bind_err (bind_err (py_index line_contents 4) (np_float e)) (\<lambda>s.
          bind_err (set_item (slm mi) l1 m1 s) (\<lambda>slm'.
          if \<not> py_in ''SW_'' model_file then
            bind_err (bind_err (py_index line_contents 5) (np_float e)) (\<lambda>ec.
            bind_err (set_item_opt (eclm mi) l1 m1 ec) (\<lambda>eclm'.
            bind_err (bind_err (py_index line_contents 6) (np_float e)) (\<lambda>es.
            bind_err (set_item_opt (eslm mi) l1 m1 es) (\<lambda>eslm'.
            Inr (mi\<lparr>clm := clm', slm := slm', eclm := eclm', eslm := eslm'\<rparr>)))))
          else Inr (mi\<lparr>clm := clm', slm := slm'\<rparr>)))))
        else Inr mi)))"

text \<open>
  Lines 229-233.  In \<open>clm[2,0] += ...\<close> the old entry is read before the collaborator is
  called, so an index out of range raises before the call.
\<close>

definition tide_correction :: "env \<Rightarrow> string \<Rightarrow> model_input \<Rightarrow> py_error + model_input" where
  "tide_correction e TIDE mi =
     (if TIDE \<in> set [''mean_tide'', ''zero_tide''] then
        (let d = AList.update ''tide_system'' TIDE (header mi) in
           bind_err (bind_err (lookup d ''earth_gravity_constant'') (np_float e)) (\<lambda>GM.
           bind_err (bind_err (lookup d ''radius'') (np_float e)) (\<lambda>R.
           bind_err (get_item (clm mi) 2 0) (\<lambda>old.
           bind_err (set_item (clm mi) 2 0 (old + calculate_tidal_offset e TIDE GM R ''WGS84'')) (\<lambda>clm'.
           Inr (mi\<lparr>header := d, clm := clm'\<rparr>))))))
      else Inr mi)"

text \<open>
  Lines 206-211: the coefficient arrays, all zero, are added to the dictionary, which holds
  the dates and the header entries by then.  The error arrays are left out when the path
  contains \<open>SW_\<close>.
\<close>

definition allocate ::
  "string \<Rightarrow> int \<Rightarrow> (real \<times> real \<times> real) option \<Rightarrow> (string \<times> string) list \<Rightarrow> py_error + model_input" where
  "allocate model_file LMAX dates d =
     bind_err (zeros (LMAX + 1) (LMAX + 1)) (\<lambda>clm0.
     bind_err (zeros (LMAX + 1) (LMAX + 1)) (\<lambda>slm0.
     if \<not> py_in ''SW_'' model_file then
       bind_err (zeros (LMAX + 1) (LMAX + 1)) (\<lambda>eclm0.
       bind_err (zeros (LMAX + 1) (LMAX + 1)) (\<lambda>eslm0.
       Inr \<lparr>time = map_option fst dates,
            start = map_option (\<lambda>t. fst (snd t)) dates,
            end' = map_option (\<lambda>t. snd (snd t)) dates,
            header = d, clm = clm0, slm = slm0, eclm = Some eclm0, eslm = Some eslm0\<rparr>))
     else
       Inr \<lparr>time = map_option fst dates,
            start = map_option (\<lambda>t. fst (snd t)) dates,
            end' = map_option (\<lambda>t. snd (snd t)) dates,
            header = d, clm = clm0, slm = slm0, eclm = None, eslm = None\<rparr>))"

text \<open>
  The whole function.  \<open>FLAG\<close> is taken literally: a data line is one that begins with it.
\<close>

definition read_ICGEM_harmonics ::
  "env \<Rightarrow> string \<Rightarrow> int option \<Rightarrow> string \<Rightarrow> string \<Rightarrow> py_error + model_input" where
  "read_ICGEM_harmonics e model_file LMAX TIDE FLAG =
     bind_err (filename_dates model_file) (\<lambda>dates.
     bind_err (open_lines e model_file) (\<lambda>file_contents.
     bind_err (parse_header file_contents) (\<lambda>d.
     bind_err (truncation_degree LMAX d) (\<lambda>LMAX.
     bind_err (allocate model_file LMAX dates d) (\<lambda>mi.
     bind_err (for_loop (data_step e model_file LMAX) (filter (prefix FLAG) file_contents) mi) (\<lambda>mi.
     tide_correction e TIDE mi))))))"

subsection \<open>Predicates on the returned record\<close>

text \<open>
  All coefficient arrays have shape \<open>(LMAX+1, LMAX+1)\<close>, and the error arrays are present
  exactly when the path does not contain \<open>SW_\<close>.
\<close>

definition well_shaped :: "string \<Rightarrow> int \<Rightarrow> model_input \<Rightarrow> bool" where
  "well_shaped model_file LMAX mi =
     (let n = nat (LMAX + 1) in
        shape (clm mi) n n \<and> shape (slm mi) n n \<and>
        (if py_in ''SW_'' model_file then eclm mi = None \<and> eslm mi = None
         else (case eclm mi of None \<Rightarrow> False | Some ec \<Rightarrow> shape ec n n) \<and>
              (case eslm mi of None \<Rightarrow> False | Some es \<Rightarrow> shape es n n)))"

text \<open>Entry \<open>[l, m]\<close> is zero whenever the order \<open>m\<close> exceeds the degree \<open>l\<close>.\<close>

definition lower_triangular :: "matrix \<Rightarrow> bool" where
  "lower_triangular m =
     list_all (\<lambda>l. list_all (\<lambda>k. k \<le> l \<or> m ! l ! k = 0) [0 ..< length (m ! l)]) [0 ..< length m]"

text \<open>The degree and the order that lines 219-220 read from a data line.\<close>

definition all_lower_triangular :: "model_input \<Rightarrow> bool" where
  "all_lower_triangular mi =
     (lower_triangular (clm mi) \<and> lower_triangular (slm mi) \<and>
      (case eclm mi of None \<Rightarrow> True | Some ec \<Rightarrow> lower_triangular ec) \<and>
      (case eslm mi of None \<Rightarrow> True | Some es \<Rightarrow> lower_triangular es))"

definition degree_order :: "string \<Rightarrow> py_error + int \<times> int" where
  "degree_order line =
     (let line_contents = py_split (sub_d_e line) in
        bind_err (bind_err (py_index line_contents 1) py_int) (\<lambda>l1.
        bind_err (bind_err (py_index line_contents 2) py_int) (\<lambda>m1. Inr (l1, m1))))"

text \<open>
  A data line that is stored (degree and order within the truncation) names an entry on
  or below the diagonal.
\<close>

definition below_diagonal :: "int \<Rightarrow> string \<Rightarrow> bool" where
  "below_diagonal LMAX line =
     (case degree_order line of
        Inl err \<Rightarrow> True
      | Inr (l1, m1) \<Rightarrow> \<not> (l1 \<le> LMAX \<and> m1 \<le> LMAX) \<or> (0 \<le> m1 \<and> m1 \<le> l1))"

subsection \<open>Example files\<close>

text \<open>
  Four small model files for the concrete evaluations below: a model of degree 2, a
  model of degree 1, a model of degree 2 with one line above the diagonal, and a model
  in the SWARM layout, whose data lines carry no error columns.  Every number in them is
  an integer, which is all the example \<open>np.float\<close> needs to read.
\<close>

definition example_header :: "string list" where
  "example_header =
     [''modelname EXAMPLE'', ''earth_gravity_constant 398600'', ''radius 6378'',
      ''errors formal'', ''norm fully_normalized'', ''tide_system tide_free'']"

definition example_lines :: "string list" where
  "example_lines = example_header @
     [''max_degree 2'', ''end_of_head'',
      ''gfc 0 0 1 0 0 0'', ''gfc 1 0 2 0 3 0'', ''gfc 1 1 4 5 6 7'',
      ''gfc 2 0 8 0 9 0'', ''gfc 2 1 10 11 12 13'', ''gfc 2 2 14 15 16 17'']"

definition example_lines_degree1 :: "string list" where
  "example_lines_degree1 = example_header @
     [''max_degree 1'', ''end_of_head'',
      ''gfc 0 0 1 0 0 0'', ''gfc 1 0 2 0 3 0'', ''gfc 1 1 4 5 6 7'']"

definition example_lines_upper :: "string list" where
  "example_lines_upper = example_header @
     [''max_degree 2'', ''end_of_head'',
      ''gfc 0 0 1 0 0 0'', ''gfc 1 2 4 5 6 7'']"

definition example_lines_swarm :: "string list" where
  "example_lines_swarm = example_header @
     [''max_degree 1'', ''end_of_head'', ''gfc 0 0 1 0'', ''gfc 1 0 2 0'', ''gfc 1 1 4 5'']"

definition example_parse_float :: "string \<Rightarrow> real option" where
  "example_parse_float s = (case py_int s of Inl err \<Rightarrow> None | Inr v \<Rightarrow> Some (real_of_int v))"

definition example_offset :: "string \<Rightarrow> real \<Rightarrow> real \<Rightarrow> string \<Rightarrow> real" where
  "example_offset TIDE GM R ellipsoid = (if TIDE = ''mean_tide'' then 100 else 50)"

definition example_files :: "string \<Rightarrow> string list option" where
  "example_files model_file =
     (if basename model_file = ''degree1.gfc'' then Some example_lines_degree1
      else if basename model_file = ''upper.gfc'' then Some example_lines_upper
      else if basename model_file = ''SW_OPER_EGF_SHA_2__20131201_20131231_0101.gfc''
        then Some example_lines_swarm
      else Some example_lines)"

definition example_env :: env where
  "example_env = \<lparr>file_lines = example_files, parse_float = example_parse_float,
                   calculate_tidal_offset = example_offset\<rparr>"

section \<open>Properties of legendre\_polynomials\<close>

subsection \<open>The loops compute the recurrence row by row\<close>

lemma length_rows_upto [simp]: "length (rows_upto f xs N n) = N"
  by (simp add: rows_upto_def)

lemma nth_rows_upto [simp]:
  "l < N \<Longrightarrow> rows_upto f xs N n ! l = (if l < n then map (f l) xs else replicate (length xs) 0)"
  by (simp add: rows_upto_def)

lemma rows_upto_update:
  "n < N \<Longrightarrow> (rows_upto f xs N n)[n := map (f n) xs] = rows_upto f xs N (Suc n)"
  by (rule nth_equalityI) (auto simp: nth_list_update less_Suc_eq)

lemma for_loop_append:
  "for_loop body (as @ [a]) s = bind_err (for_loop body as s) (\<lambda>s'. body s' a)"
  by (induction as arbitrary: s) (auto simp: bind_err_def split: sum.splits)

lemma norm_index_nat [simp]: "k < n \<Longrightarrow> norm_index n (int k) = Inr k"
  by (simp add: norm_index_def)

lemma get_row_nat: "k < length m \<Longrightarrow> get_row m (int k) = Inr (m ! k)"
  by (simp add: get_row_def bind_err_def)

lemma set_row_nat: "k < length m \<Longrightarrow> set_row m (int k) row = Inr (m[k := row])"
  by (simp add: set_row_def bind_err_def)

lemma map3_spec:
  "map (\<lambda>(x, a, b). g x a b) (zip xs (zip (map f1 xs) (map f2 xs))) = map (\<lambda>x. g x (f1 x) (f2 x)) xs"
  by (induction xs) auto

lemma spec_rows0:
  "map (ptemp_spec 0) xs = replicate (length xs) 1"
  "map (ptemp_spec (Suc 0)) xs = xs"
  "map (pl_spec 0) xs = replicate (length xs) 1"
  "map (pl_spec (Suc 0)) xs = map (\<lambda>v. sqrt 3 * v) xs"
  "map (dpl_spec 0) xs = replicate (length xs) 0"
  by (induction xs) (simp_all add: pl_spec_def dpl_spec_def)

lemma get_row_pred:
  "int k = i - 1 \<Longrightarrow> k < length m \<Longrightarrow> get_row m (i - 1) = Inr (m ! k)"
  "int k = i - 2 \<Longrightarrow> k < length m \<Longrightarrow> get_row m (i - 2) = Inr (m ! k)"
  using get_row_nat[of k m] by auto

lemma recurrence_step_rows:
  assumes "2 \<le> l" "l < N"
  shows "recurrence_step xs (rows_upto ptemp_spec xs N l, rows_upto pl_spec xs N l) l
           = Inr (rows_upto ptemp_spec xs N (Suc l), rows_upto pl_spec xs N (Suc l))"
proof -
  obtain k where l: "l = Suc (Suc k)" using assms(1) by (metis Suc_le_D numeral_2_eq_2 Suc_le_mono)
  have i1: "int l - 1 = int (Suc k)" and i2: "int l - 2 = int k" using l by simp_all
  have new: "map (\<lambda>(x, a, b). (((2 * real l) - 1) / real l) * x * a - ((real l - 1) / real l) * b)
                 (zip xs (zip (map (ptemp_spec (Suc k)) xs) (map (ptemp_spec k) xs)))
             = map (ptemp_spec l) xs"
    unfolding map3_spec by (simp add: l)
  have norm: "map (\<lambda>v. sqrt ((2 * real l) + 1) * v) (map (ptemp_spec l) xs) = map (pl_spec l) xs"
    by (simp add: pl_spec_def l)
  let ?PT = "rows_upto ptemp_spec xs N l" and ?PL = "rows_upto pl_spec xs N l"
  have g1: "get_row ?PT (int l - 1) = Inr (map (ptemp_spec (Suc k)) xs)"
    using assms l get_row_pred(1)[of "Suc k" "int l" ?PT] by simp
  have g2: "get_row ?PT (int l - 2) = Inr (map (ptemp_spec k) xs)"
    using assms l get_row_pred(2)[of k "int l" ?PT] by simp
  have s1: "set_row ?PT (int l) (map (ptemp_spec l) xs) = Inr (rows_upto ptemp_spec xs N (Suc l))"
    using assms by (simp add: set_row_nat rows_upto_update)
  have g3: "get_row (rows_upto ptemp_spec xs N (Suc l)) (int l) = Inr (map (ptemp_spec l) xs)"
    using assms by (simp add: get_row_nat)
  have s2: "set_row ?PL (int l) (map (pl_spec l) xs) = Inr (rows_upto pl_spec xs N (Suc l))"
    using assms by (simp add: set_row_nat rows_upto_update)
  show ?thesis
    unfolding recurrence_step_def prod.case
    by (simp only: g1 g2 new s1 g3 norm s2 bind_err_def sum.case)
qed

lemma recurrence_loop_rows:
  assumes "2 \<le> n" "n \<le> N"
  shows "for_loop (recurrence_step xs) [2..<n] (rows_upto ptemp_spec xs N 2, rows_upto pl_spec xs N 2)
           = Inr (rows_upto ptemp_spec xs N n, rows_upto pl_spec xs N n)"
  using assms
proof (induction n)
  case 0
  then show ?case by simp
next
  case (Suc n)
  show ?case
  proof (cases "n = 1")
    case True
    then show ?thesis by (simp add: numeral_2_eq_2)
  next
    case False
    with Suc.prems have n: "2 \<le> n" "n < N" by simp_all
    have "[2..<Suc n] = [2..<n] @ [n]" using n by simp
    then show ?thesis
      using Suc.IH n recurrence_step_rows[OF n] by (simp add: for_loop_append bind_err_def)
  qed
qed

lemma derivative_step_rows:
  assumes "1 \<le> l" "l < N"
  shows "derivative_step xs (rows_upto pl_spec xs N N) (rows_upto dpl_spec xs N l) l
           = Inr (rows_upto dpl_spec xs N (Suc l))"
proof -
  obtain k where l: "l = Suc k" using assms(1) by (metis Suc_le_D One_nat_def)
  have i1: "int l - 1 = int k" using l by simp
  let ?PL = "rows_upto pl_spec xs N N" and ?DP = "rows_upto dpl_spec xs N l"
  have g1: "get_row ?PL (int l) = Inr (map (pl_spec l) xs)"
    using assms by (simp add: get_row_nat)
  have g2: "get_row ?PL (int l - 1) = Inr (map (pl_spec k) xs)"
    using assms l get_row_pred(1)[of k "int l" ?PL] by simp
  have new: "map (\<lambda>(x, a, b). (1 / sqrt (1 - x\<^sup>2)) *
                 (real l * x * a - sqrt (((real l)\<^sup>2 * (2 * real l + 1)) / (2 * real l - 1)) * b))
               (zip xs (zip (map (pl_spec l) xs) (map (pl_spec k) xs)))
             = map (dpl_spec l) xs"
    unfolding map3_spec by (simp add: dpl_spec_def fl_spec_def l)
  have s1: "set_row ?DP (int l) (map (dpl_spec l) xs) = Inr (rows_upto dpl_spec xs N (Suc l))"
    using assms by (simp add: set_row_nat rows_upto_update)
  show ?thesis
    unfolding derivative_step_def Let_def
    by (simp only: g1 g2 new s1 bind_err_def sum.case)
qed

lemma derivative_loop_rows:
  assumes "1 \<le> n" "n \<le> N"
  shows "for_loop (derivative_step xs (rows_upto pl_spec xs N N)) [1..<n] (rows_upto dpl_spec xs N 1)
           = Inr (rows_upto dpl_spec xs N n)"
  using assms
proof (induction n)
  case 0
  then show ?case by simp
next
  case (Suc n)
  show ?case
  proof (cases "n = 0")
    case True
    then show ?thesis by simp
  next
    case False
    with Suc.prems have n: "1 \<le> n" "n < N" by simp_all
    have "[1..<Suc n] = [1..<n] @ [n]" using n by simp
    then show ?thesis
      using Suc.IH n derivative_step_rows[OF n] by (simp add: for_loop_append bind_err_def)
  qed
qed

lemma rows_upto_dpl_1: "rows_upto dpl_spec xs N 1 = rows_upto dpl_spec xs N 0"
  by (rule nth_equalityI) (auto simp: spec_rows0)

lemma set_row_rows_upto:
  "n < N \<Longrightarrow> row = map (f n) xs \<Longrightarrow>
     set_row (rows_upto f xs N n) (int n) row = Inr (rows_upto f xs N (Suc n))"
  by (simp add: set_row_nat rows_upto_update)

lemma legendre_polynomials_rows:
  assumes "1 \<le> lmax"
  shows "legendre_polynomials lmax x =
           Inr (rows_upto pl_spec (xvals x) (nat (lmax + 1)) (nat (lmax + 1)),
                rows_upto dpl_spec (xvals x) (nat (lmax + 1)) (nat (lmax + 1)))"
proof -
  let ?xs = "xvals x" and ?N = "nat (lmax + 1)"
  have nx: "nx_of x = length ?xs" by (cases x) simp_all
  have N: "2 \<le> ?N" using assms by simp
  let ?Z = "replicate ?N (replicate (length ?xs) (0::real))"
  have zf: "\<And>f. ?Z = rows_upto f ?xs ?N 0"
    by (simp add: rows_upto_def map_replicate_const)
  have z: "zeros (lmax + 1) (int (length ?xs)) = Inr ?Z"
    using assms by (simp add: zeros_def)
  have a0: "set_row ?Z 0 (replicate (length ?xs) 1)
              = Inr (rows_upto ptemp_spec ?xs ?N 1)"
    unfolding zf[of ptemp_spec]
    using N set_row_rows_upto[of 0 ?N "replicate (length ?xs) 1" ptemp_spec ?xs]
    by (simp add: spec_rows0)
  have a1: "set_row (rows_upto ptemp_spec ?xs ?N 1) 1 ?xs = Inr (rows_upto ptemp_spec ?xs ?N 2)"
    using N set_row_rows_upto[of 1 ?N ?xs ptemp_spec ?xs]
    by (simp add: spec_rows0 numeral_2_eq_2)
  have b0: "get_row (rows_upto ptemp_spec ?xs ?N 2) 0 = Inr (replicate (length ?xs) 1)"
    using N get_row_nat[of 0 "rows_upto ptemp_spec ?xs ?N 2"] by (simp add: spec_rows0)
  have c0: "set_row ?Z 0 (replicate (length ?xs) 1)
              = Inr (rows_upto pl_spec ?xs ?N 1)"
    unfolding zf[of pl_spec]
    using N set_row_rows_upto[of 0 ?N "replicate (length ?xs) 1" pl_spec ?xs]
    by (simp add: spec_rows0)
  have b1: "get_row (rows_upto ptemp_spec ?xs ?N 2) 1 = Inr ?xs"
    using N get_row_nat[of 1 "rows_upto ptemp_spec ?xs ?N 2"] by (simp add: spec_rows0)
  have eq1: "rows_upto ptemp_spec ?xs ?N 1 = rows_upto pl_spec ?xs ?N 1"
    by (rule nth_equalityI) (auto simp: spec_rows0)
  have c1: "set_row (rows_upto ptemp_spec ?xs ?N 1) 1 (map (\<lambda>v. sqrt 3 * v) ?xs)
              = Inr (rows_upto pl_spec ?xs ?N 2)"
    unfolding eq1
    using N set_row_rows_upto[of 1 ?N "map (\<lambda>v. sqrt 3 * v) ?xs" pl_spec ?xs]
    by (simp add: spec_rows0 numeral_2_eq_2)
  have l1: "for_loop (recurrence_step ?xs) (py_range 2 (lmax + 1))
              (rows_upto ptemp_spec ?xs ?N 2, rows_upto pl_spec ?xs ?N 2)
            = Inr (rows_upto ptemp_spec ?xs ?N ?N, rows_upto pl_spec ?xs ?N ?N)"
    unfolding py_range_def using N by (intro recurrence_loop_rows) simp_all
  have l2: "for_loop (derivative_step ?xs (rows_upto pl_spec ?xs ?N ?N)) (py_range 1 (lmax + 1))
              ?Z = Inr (rows_upto dpl_spec ?xs ?N ?N)"
    unfolding py_range_def zf[of dpl_spec] rows_upto_dpl_1[symmetric] using N by (intro derivative_loop_rows) simp_all
  show ?thesis
    unfolding legendre_polynomials_def Let_def nx
    by (simp only: z a0 a1 b0 b1 c1 l1 l2 bind_err_def sum.case prod.case)
qed

lemma shape_rows_upto: "shape (rows_upto f xs N n) N (length xs)"
  by (auto simp: shape_def rows_upto_def list_all_iff)

subsection \<open>Recurrence, normalisation and derivative\<close>

text \<open>
  C1.  For every \<open>lmax \<ge> 2\<close> and every array \<open>x\<close> of values in the open interval
  \<open>(-1, 1)\<close>, the call returns \<open>(pl, dpl)\<close> where at every evaluation point
  \<open>pl[0] = 1\<close>, \<open>dpl[0] = 0\<close> and, for \<open>1 \<le> l \<le> lmax\<close>,
  \<open>pl[l] = sqrt(2l+1) * ptemp[l]\<close> with \<open>ptemp\<close> the three-term recurrence, and
  \<open>dpl[l] = (1/sqrt(1-x\<^sup>2)) * (l*x*pl[l] - fl*pl[l-1])\<close> with
  \<open>fl = sqrt(l\<^sup>2 * (2l+1) / (2l-1))\<close>.
\<close>

theorem legendre_polynomials_recurrence:
  assumes "2 \<le> lmax" and "\<forall>v \<in> set x. - 1 < v \<and> v < 1"
  shows "\<exists>pl dpl. legendre_polynomials lmax (Array x) = Inr (pl, dpl) \<and>
           (\<forall>j < length x.
              pl ! 0 ! j = 1 \<and> dpl ! 0 ! j = 0 \<and>
              (\<forall>l. 1 \<le> l \<and> l \<le> nat lmax \<longrightarrow>
                 pl ! l ! j = sqrt (2 * real l + 1) * ptemp_spec l (x ! j) \<and>
                 dpl ! l ! j = (1 / sqrt (1 - (x ! j)\<^sup>2)) *
                   (real l * (x ! j) * (pl ! l ! j) - fl_spec l * (pl ! (l - 1) ! j))))"
proof -
  let ?N = "nat (lmax + 1)"
  let ?pl = "rows_upto pl_spec x ?N ?N" and ?dpl = "rows_upto dpl_spec x ?N ?N"
  have run: "legendre_polynomials lmax (Array x) = Inr (?pl, ?dpl)"
    using legendre_polynomials_rows[of lmax "Array x"] assms(1) by simp
  have rows: "\<forall>j < length x.
      ?pl ! 0 ! j = 1 \<and> ?dpl ! 0 ! j = 0 \<and>
      (\<forall>l. 1 \<le> l \<and> l \<le> nat lmax \<longrightarrow>
         ?pl ! l ! j = sqrt (2 * real l + 1) * ptemp_spec l (x ! j) \<and>
         ?dpl ! l ! j = (1 / sqrt (1 - (x ! j)\<^sup>2)) *
           (real l * (x ! j) * (?pl ! l ! j) - fl_spec l * (?pl ! (l - 1) ! j)))"
  proof (intro allI impI conjI)
    fix j assume j: "j < length x"
    show "?pl ! 0 ! j = 1" using assms(1) j by (simp add: pl_spec_def)
    show "?dpl ! 0 ! j = 0" using assms(1) j by (simp add: dpl_spec_def)
  next
    fix j l assume j: "j < length x" and l: "1 \<le> l \<and> l \<le> nat lmax"
    then have lN: "l < ?N" "l - 1 < ?N" "l \<noteq> 0" using assms(1) by auto
    show "?pl ! l ! j = sqrt (2 * real l + 1) * ptemp_spec l (x ! j)"
      using lN j by (simp add: pl_spec_def)
    show "?dpl ! l ! j = (1 / sqrt (1 - (x ! j)\<^sup>2)) *
           (real l * (x ! j) * (?pl ! l ! j) - fl_spec l * (?pl ! (l - 1) ! j))"
      using lN j by (simp add: dpl_spec_def)
  qed
  from run rows show ?thesis by blast
qed

theorem legendre_polynomials_recurrence_witness:
  "(2::int) \<le> 2 \<and> - 1 < (1 / 2 :: real) \<and> (1 / 2 :: real) < 1 \<and>
   (\<exists>pl dpl. legendre_polynomials 2 (Array [1 / 2]) = Inr (pl, dpl) \<and>
      pl ! 0 ! 0 = 1 \<and> dpl ! 0 ! 0 = 0 \<and>
      pl ! 1 ! 0 = sqrt 3 * (1 / 2) \<and>
      pl ! 2 ! 0 = sqrt 5 * ptemp_spec 2 (1 / 2) \<and>
      dpl ! 2 ! 0 = (1 / sqrt (1 - (1 / 2)\<^sup>2)) *
        (2 * (1 / 2) * (pl ! 2 ! 0) - fl_spec 2 * (pl ! 1 ! 0)))"
proof -
  have h1: "(2::int) \<le> 2" by simp
  have h2: "\<forall>v \<in> set [1 / 2 :: real]. - 1 < v \<and> v < 1" by simp
  obtain pl dpl where run: "legendre_polynomials 2 (Array [1 / 2]) = Inr (pl, dpl)"
    and rows: "\<forall>j < length [1 / 2 :: real].
      pl ! 0 ! j = 1 \<and> dpl ! 0 ! j = 0 \<and>
      (\<forall>l. 1 \<le> l \<and> l \<le> nat 2 \<longrightarrow>
         pl ! l ! j = sqrt (2 * real l + 1) * ptemp_spec l ([1 / 2] ! j) \<and>
         dpl ! l ! j = (1 / sqrt (1 - ([1 / 2] ! j)\<^sup>2)) *
           (real l * ([1 / 2] ! j) * (pl ! l ! j) - fl_spec l * (pl ! (l - 1) ! j)))"
    using legendre_polynomials_recurrence[OF h1 h2] by blast
  from rows have r0: "pl ! 0 ! 0 = 1 \<and> dpl ! 0 ! 0 = 0" by simp
  from rows have r1: "pl ! 1 ! 0 = sqrt 3 * (1 / 2)"
    by (simp add: all_conj_distrib)
  from rows have "1 \<le> (2::nat) \<and> (2::nat) \<le> nat 2 \<longrightarrow>
      pl ! 2 ! 0 = sqrt (2 * real 2 + 1) * ptemp_spec 2 ([1 / 2] ! 0) \<and>
      dpl ! 2 ! 0 = (1 / sqrt (1 - ([1 / 2] ! 0)\<^sup>2)) *
        (real 2 * ([1 / 2] ! 0) * (pl ! 2 ! 0) - fl_spec 2 * (pl ! (2 - 1) ! 0))"
    by blast
  then have r2: "pl ! 2 ! 0 = sqrt 5 * ptemp_spec 2 (1 / 2) \<and>
      dpl ! 2 ! 0 = (1 / sqrt (1 - (1 / 2)\<^sup>2)) *
        (2 * (1 / 2) * (pl ! 2 ! 0) - fl_spec 2 * (pl ! 1 ! 0))"
    by simp
  from run r0 r1 r2 show ?thesis by simp
qed

subsection \<open>The first two rows for a scalar argument\<close>

text \<open>
  C4, as the code has it.  With \<open>lmax = 0\<close> the arrays have a single row and the
  assignment to row 1 (line 56) raises \<open>IndexError\<close>, so no \<open>pl\<close> is returned.
\<close>

theorem legendre_polynomials_scalar_lmax_zero:
  "legendre_polynomials 0 (Scalar (1 / 2)) = Inl IndexError"
  by (simp add: legendre_polynomials_def bind_err_def zeros_def set_row_def norm_index_def)

text \<open>
  C4, amended.  For every \<open>lmax \<ge> 1\<close> and every scalar \<open>x\<close> in the open interval
  \<open>(-1, 1)\<close>, the call returns \<open>pl\<close> with \<open>pl[0] = 1\<close> and \<open>pl[1] = sqrt(3) * x\<close>.
\<close>

theorem legendre_polynomials_scalar_first_rows:
  assumes "1 \<le> lmax" and "- 1 < x" and "x < 1"
  shows "\<exists>pl dpl. legendre_polynomials lmax (Scalar x) = Inr (pl, dpl) \<and>
           pl ! 0 = [1] \<and> pl ! 1 = [sqrt 3 * x]"
proof -
  let ?N = "nat (lmax + 1)"
  have run: "legendre_polynomials lmax (Scalar x) =
               Inr (rows_upto pl_spec [x] ?N ?N, rows_upto dpl_spec [x] ?N ?N)"
    using legendre_polynomials_rows[of lmax "Scalar x"] assms(1) by simp
  have "rows_upto pl_spec [x] ?N ?N ! 0 = [1]"
    using assms(1) by (simp add: pl_spec_def)
  moreover have "rows_upto pl_spec [x] ?N ?N ! 1 = [sqrt 3 * x]"
    using assms(1) by (simp add: pl_spec_def)
  ultimately show ?thesis using run by blast
qed

theorem legendre_polynomials_scalar_first_rows_witness:
  "(1::int) \<le> 1 \<and> - 1 < (1 / 2 :: real) \<and> (1 / 2 :: real) < 1 \<and>
   (\<exists>pl dpl. legendre_polynomials 1 (Scalar (1 / 2)) = Inr (pl, dpl) \<and>
      pl ! 0 = [1] \<and> pl ! 1 = [sqrt 3 * (1 / 2)])"
proof -
  have h1: "(1::int) \<le> 1" and h2: "- 1 < (1 / 2 :: real)" and h3: "(1 / 2 :: real) < 1"
    by simp_all
  show ?thesis using h1 h2 h3 legendre_polynomials_scalar_first_rows[OF h1 h2 h3] by blast
qed

subsection \<open>Shape of the result\<close>

text \<open>
  C5, as the code has it.  With \<open>lmax = -1\<close> the arrays have no row and the assignment to
  row 0 (line 55) raises \<open>IndexError\<close>: the call fails instead of returning empty output.
\<close>

theorem legendre_polynomials_negative_lmax:
  "legendre_polynomials (- 1) (Array [1 / 2, 0]) = Inl IndexError"
  by (simp add: legendre_polynomials_def bind_err_def zeros_def set_row_def norm_index_def)

text \<open>
  C5, amended.  For every \<open>lmax \<ge> 1\<close> and every input array \<open>x\<close>, the call returns two
  matrices \<open>pl\<close> and \<open>dpl\<close>, each of shape \<open>(lmax+1, len(x))\<close>.
\<close>

theorem legendre_polynomials_shape:
  assumes "1 \<le> lmax"
  shows "\<exists>pl dpl. legendre_polynomials lmax (Array x) = Inr (pl, dpl) \<and>
           shape pl (nat (lmax + 1)) (length x) \<and> shape dpl (nat (lmax + 1)) (length x)"
  using legendre_polynomials_rows[OF assms, of "Array x"] by (simp add: shape_rows_upto)

theorem legendre_polynomials_shape_witness:
  "(1::int) \<le> 3 \<and>
   (\<exists>pl dpl. legendre_polynomials 3 (Array [1 / 2, 0]) = Inr (pl, dpl) \<and>
      shape pl (nat (3 + 1)) (length [1 / 2, 0 :: real]) \<and>
      shape dpl (nat (3 + 1)) (length [1 / 2, 0 :: real]))"
proof -
  have h: "(1::int) \<le> 3" by simp
  show ?thesis using h legendre_polynomials_shape[OF h, of "[1 / 2, 0]"] by blast
qed

section \<open>Properties of read\_ICGEM\_harmonics\<close>

subsection \<open>Errors, loops and array updates\<close>

lemma bind_err_simps [simp]:
  "bind_err (Inr v) f = f v" "bind_err (Inl err) f = Inl err"
  by (simp_all add: bind_err_def)

lemma bind_err_Inr_iff: "bind_err m f = Inr r \<longleftrightarrow> (\<exists>v. m = Inr v \<and> f v = Inr r)"
  by (cases m) simp_all

lemma bind_err_assoc: "bind_err (bind_err m f) g = bind_err m (\<lambda>v. bind_err (f v) g)"
  by (cases m) simp_all

lemma bind_err_Inr_right: "bind_err m Inr = m"
  by (cases m) simp_all

lemma for_loop_invariant:
  assumes "for_loop body xs s = Inr s'" and "P s"
    and "\<And>s a t. a \<in> set xs \<Longrightarrow> P s \<Longrightarrow> body s a = Inr t \<Longrightarrow> P t"
  shows "P s'"
  using assms
proof (induction xs arbitrary: s)
  case Nil
  then show ?case by simp
next
  case (Cons a xs)
  from Cons.prems(1) obtain t where t: "body s a = Inr t" "for_loop body xs t = Inr s'"
    by (auto simp: bind_err_Inr_iff)
  have Pt: "P t" using Cons.prems(3)[of a s t] Cons.prems(2) t(1) by simp
  show ?case
  proof (rule Cons.IH[OF t(2) Pt])
    fix u b w assume "b \<in> set xs" "P u" "body u b = Inr w"
    then show "P w" using Cons.prems(3)[of b u w] by simp
  qed
qed

lemma norm_index_Inr: "norm_index n i = Inr k \<Longrightarrow> k < n"
  by (auto simp: norm_index_def split: if_splits)

lemma norm_index_nonneg: "0 \<le> i \<Longrightarrow> norm_index n i = Inr k \<Longrightarrow> k = nat i"
  by (auto simp: norm_index_def split: if_splits)

lemma zeros_Inr: "zeros r c = Inr m \<Longrightarrow> m = replicate (nat r) (replicate (nat c) 0) \<and> 0 \<le> r \<and> 0 \<le> c"
  by (auto simp: zeros_def split: if_splits)

lemma shape_replicate: "shape (replicate r (replicate c v)) r c"
  by (simp add: shape_def list_all_iff)

lemma shape_nth: "shape m r c \<Longrightarrow> l < r \<Longrightarrow> length (m ! l) = c"
  by (auto simp: shape_def list_all_iff)

lemma shape_length: "shape m r c \<Longrightarrow> length m = r"
  by (simp add: shape_def)

lemma shape_update: "shape m r c \<Longrightarrow> a < r \<Longrightarrow> shape (m[a := (m ! a)[b := v]]) r c"
  by (auto simp: shape_def list_all_iff set_conv_nth nth_list_update)

lemma set_item_shape: "set_item m i j v = Inr m' \<Longrightarrow> shape m r c \<Longrightarrow> shape m' r c"
  by (auto simp: set_item_def bind_err_Inr_iff shape_length dest!: norm_index_Inr intro: shape_update)

lemma lower_triangular_iff:
  "lower_triangular m \<longleftrightarrow> (\<forall>l < length m. \<forall>k < length (m ! l). l < k \<longrightarrow> m ! l ! k = 0)"
  unfolding lower_triangular_def list_all_iff by (simp add: Ball_def) (meson leI leD)

lemma lower_triangular_replicate: "lower_triangular (replicate r (replicate c 0))"
  by (simp add: lower_triangular_iff)

lemma lower_triangular_update:
  assumes "lower_triangular m" and "b \<le> a"
  shows "lower_triangular (m[a := (m ! a)[b := v]])"
  unfolding lower_triangular_iff
proof (intro allI impI)
  fix l k
  assume l: "l < length (m[a := (m ! a)[b := v]])"
    and k: "k < length (m[a := (m ! a)[b := v]] ! l)" and lk: "l < k"
  have old: "m ! l ! k = 0" if "k < length (m ! l)"
    using assms(1) l lk that by (simp add: lower_triangular_iff)
  show "m[a := (m ! a)[b := v]] ! l ! k = 0"
  proof (cases "l = a")
    case True
    then have "k \<noteq> b" using lk assms(2) by simp
    then show ?thesis using True l k old by (simp add: nth_list_update)
  next
    case False
    then show ?thesis using l k old by (simp add: nth_list_update)
  qed
qed

lemma set_item_lower:
  assumes "set_item m i j v = Inr m'" and "lower_triangular m" and "0 \<le> j" and "j \<le> i"
  shows "lower_triangular m'"
proof -
  from assms(1) obtain a b where ab: "norm_index (length m) i = Inr a"
      "norm_index (length (m ! a)) j = Inr b" "m' = m[a := (m ! a)[b := v]]"
    by (auto simp: set_item_def bind_err_Inr_iff)
  have "0 \<le> i" using assms(3,4) by simp
  then have "a = nat i" "b = nat j" using ab assms(3) by (auto dest: norm_index_nonneg)
  then have "b \<le> a" using assms(3,4) by simp
  then show ?thesis using ab(3) assms(2) by (simp add: lower_triangular_update)
qed


lemma set_item_opt_Inr:
  "set_item_opt mo i j v = Inr mo' \<longleftrightarrow> (\<exists>m m'. mo = Some m \<and> mo' = Some m' \<and> set_item m i j v = Inr m')"
  by (cases mo) (auto simp: set_item_opt_def bind_err_Inr_iff)

lemma bind_err_InrE:
  assumes "bind_err m f = Inr r"
  obtains v where "m = Inr v" and "f v = Inr r"
  using assms by (auto simp: bind_err_Inr_iff)

text \<open>What one data line does to the record, when it does not raise.\<close>

lemma data_step_cases:
  assumes "data_step e p L mi line = Inr mi'"
  obtains
    (skip) l1 m1 where "degree_order line = Inr (l1, m1)" and "\<not> (l1 \<le> L \<and> m1 \<le> L)"
      and "mi' = mi"
  | (swarm) l1 m1 c s clm' slm' where "degree_order line = Inr (l1, m1)"
      and "l1 \<le> L" and "m1 \<le> L" and "py_in ''SW_'' p"
      and "set_item (clm mi) l1 m1 c = Inr clm'" and "set_item (slm mi) l1 m1 s = Inr slm'"
      and "mi' = mi\<lparr>clm := clm', slm := slm'\<rparr>"
  | (full) l1 m1 c s ec es clm' slm' ecm esm ecm' esm' where "degree_order line = Inr (l1, m1)"
      and "l1 \<le> L" and "m1 \<le> L" and "\<not> py_in ''SW_'' p"
      and "set_item (clm mi) l1 m1 c = Inr clm'" and "set_item (slm mi) l1 m1 s = Inr slm'"
      and "eclm mi = Some ecm" and "eslm mi = Some esm"
      and "set_item ecm l1 m1 ec = Inr ecm'" and "set_item esm l1 m1 es = Inr esm'"
      and "mi' = mi\<lparr>clm := clm', slm := slm', eclm := Some ecm', eslm := Some esm'\<rparr>"
proof -
  let ?lc = "py_split (sub_d_e line)"
  from assms[unfolded data_step_def Let_def]
  obtain l1 where l1: "bind_err (py_index ?lc 1) py_int = Inr l1"
    and r1: "bind_err (bind_err (py_index ?lc 2) py_int) (\<lambda>m1.
        if l1 \<le> L \<and> m1 \<le> L then
          bind_err (bind_err (py_index ?lc 3) (np_float e)) (\<lambda>c.
          bind_err (set_item (clm mi) l1 m1 c) (\<lambda>clm'.
          bind_err (bind_err (py_index ?lc 4) (np_float e)) (\<lambda>s.
          bind_err (set_item (slm mi) l1 m1 s) (\<lambda>slm'.
          if \<not> py_in ''SW_'' p then
            bind_err (bind_err (py_index ?lc 5) (np_float e)) (\<lambda>ec.
            bind_err (set_item_opt (eclm mi) l1 m1 ec) (\<lambda>eclm'.
            bind_err (bind_err (py_index ?lc 6) (np_float e)) (\<lambda>es.
            bind_err (set_item_opt (eslm mi) l1 m1 es) (\<lambda>eslm'.
            Inr (mi\<lparr>clm := clm', slm := slm', eclm := eclm', eslm := eslm'\<rparr>)))))
          else Inr (mi\<lparr>clm := clm', slm := slm'\<rparr>)))))
        else Inr mi) = Inr mi'"
    by (rule bind_err_InrE)
  from r1 obtain m1 where m1: "bind_err (py_index ?lc 2) py_int = Inr m1"
    and r2: "(if l1 \<le> L \<and> m1 \<le> L then
          bind_err (bind_err (py_index ?lc 3) (np_float e)) (\<lambda>c.
          bind_err (set_item (clm mi) l1 m1 c) (\<lambda>clm'.
          bind_err (bind_err (py_index ?lc 4) (np_float e)) (\<lambda>s.
          bind_err (set_item (slm mi) l1 m1 s) (\<lambda>slm'.
          if \<not> py_in ''SW_'' p then
            bind_err (bind_err (py_index ?lc 5) (np_float e)) (\<lambda>ec.
            bind_err (set_item_opt (eclm mi) l1 m1 ec) (\<lambda>eclm'.
            bind_err (bind_err (py_index ?lc 6) (np_float e)) (\<lambda>es.
            bind_err (set_item_opt (eslm mi) l1 m1 es) (\<lambda>eslm'.
            Inr (mi\<lparr>clm := clm', slm := slm', eclm := eclm', eslm := eslm'\<rparr>)))))
          else Inr (mi\<lparr>clm := clm', slm := slm'\<rparr>)))))
        else Inr mi) = Inr mi'"
    by (rule bind_err_InrE)
  have deg: "degree_order line = Inr (l1, m1)"
    by (simp add: degree_order_def Let_def l1 m1)
  show thesis
  proof (cases "l1 \<le> L \<and> m1 \<le> L")
    case False
    with r2 have "mi' = mi" by simp
    with deg False show thesis by (rule skip)
  next
    case True
    with r2 obtain c clm' s slm' where
      c: "set_item (clm mi) l1 m1 c = Inr clm'" and s: "set_item (slm mi) l1 m1 s = Inr slm'"
      and r3: "(if \<not> py_in ''SW_'' p then
            bind_err (bind_err (py_index ?lc 5) (np_float e)) (\<lambda>ec.
            bind_err (set_item_opt (eclm mi) l1 m1 ec) (\<lambda>eclm'.
            bind_err (bind_err (py_index ?lc 6) (np_float e)) (\<lambda>es.
            bind_err (set_item_opt (eslm mi) l1 m1 es) (\<lambda>eslm'.
            Inr (mi\<lparr>clm := clm', slm := slm', eclm := eclm', eslm := eslm'\<rparr>)))))
          else Inr (mi\<lparr>clm := clm', slm := slm'\<rparr>)) = Inr mi'"
      by (simp add: bind_err_Inr_iff) blast
    show thesis
    proof (cases "py_in ''SW_'' p")
      case sw: True
      with r3 have "mi' = mi\<lparr>clm := clm', slm := slm'\<rparr>" by simp
      with deg True sw c s show thesis by (intro swarm) simp_all
    next
      case sw: False
      with r3 obtain ec es ecm esm ecm' esm' where
        "eclm mi = Some ecm" "eslm mi = Some esm"
        "set_item ecm l1 m1 ec = Inr ecm'" "set_item esm l1 m1 es = Inr esm'"
        "mi' = mi\<lparr>clm := clm', slm := slm', eclm := Some ecm', eslm := Some esm'\<rparr>"
        by (simp add: bind_err_Inr_iff set_item_opt_Inr) blast
      with deg True sw c s show thesis by (intro full) simp_all
    qed
  qed
qed

lemma data_step_well_shaped:
  assumes "data_step e p L mi line = Inr mi'" and "well_shaped p L mi"
  shows "well_shaped p L mi'"
  using assms(1)
proof (cases rule: data_step_cases)
  case skip
  then show ?thesis using assms(2) by simp
next
  case swarm
  then show ?thesis using assms(2)
    by (auto simp: well_shaped_def Let_def dest: set_item_shape)
next
  case full
  then show ?thesis using assms(2)
    by (auto simp: well_shaped_def Let_def dest: set_item_shape)
qed

lemma data_step_lower:
  assumes "data_step e p L mi line = Inr mi'" and "all_lower_triangular mi"
    and "below_diagonal L line"
  shows "all_lower_triangular mi'"
  using assms(1)
proof (cases rule: data_step_cases)
  case skip
  then show ?thesis using assms(2) by simp
next
  case (swarm l1 m1 c s clm' slm')
  then have "0 \<le> m1" "m1 \<le> l1" using assms(3) by (simp_all add: below_diagonal_def)
  with swarm show ?thesis using assms(2)
    by (auto simp: all_lower_triangular_def dest: set_item_lower)
next
  case (full l1 m1 c s ec es clm' slm' ecm esm ecm' esm')
  then have "0 \<le> m1" "m1 \<le> l1" using assms(3) by (simp_all add: below_diagonal_def)
  with full show ?thesis using assms(2)
    by (auto simp: all_lower_triangular_def dest: set_item_lower)
qed

lemma data_step_frame:
  assumes "data_step e p L mi line = Inr mi'"
  shows "time mi' = time mi \<and> start mi' = start mi \<and> end' mi' = end' mi \<and> header mi' = header mi"
  using assms by (cases rule: data_step_cases) simp_all

lemma allocate_Inr:
  assumes "allocate p L dates d = Inr mi"
  shows "well_shaped p L mi \<and> all_lower_triangular mi \<and> header mi = d \<and> 0 \<le> L + 1"
  using assms unfolding allocate_def
  by (auto simp: bind_err_Inr_iff well_shaped_def all_lower_triangular_def Let_def shape_replicate
        lower_triangular_replicate split: if_splits dest!: zeros_Inr)

lemma tide_free_id:
  "TIDE \<noteq> ''mean_tide'' \<Longrightarrow> TIDE \<noteq> ''zero_tide'' \<Longrightarrow> tide_correction e TIDE mi = Inr mi"
  by (simp add: tide_correction_def)

lemma tide_correction_Inr:
  assumes "tide_correction e TIDE mi = Inr r" and "TIDE = ''mean_tide'' \<or> TIDE = ''zero_tide''"
  shows "\<exists>GM R old clm'.
           bind_err (lookup (AList.update ''tide_system'' TIDE (header mi)) ''earth_gravity_constant'') (np_float e) = Inr GM \<and>
           bind_err (lookup (AList.update ''tide_system'' TIDE (header mi)) ''radius'') (np_float e) = Inr R \<and>
           get_item (clm mi) 2 0 = Inr old \<and>
           set_item (clm mi) 2 0 (old + calculate_tidal_offset e TIDE GM R ''WGS84'') = Inr clm' \<and>
           r = mi\<lparr>header := AList.update ''tide_system'' TIDE (header mi), clm := clm'\<rparr>"
  using assms unfolding tide_correction_def Let_def
  by (auto simp: bind_err_Inr_iff)

lemma tide_correction_well_shaped:
  assumes "tide_correction e TIDE mi = Inr r" and "well_shaped p L mi"
  shows "well_shaped p L r"
proof (cases "TIDE = ''mean_tide'' \<or> TIDE = ''zero_tide''")
  case True
  from tide_correction_Inr[OF assms(1) True] assms(2) show ?thesis
    by (auto simp: well_shaped_def Let_def dest: set_item_shape)
next
  case False
  then show ?thesis using assms by (simp add: tide_free_id)
qed

lemma tide_correction_lower:
  assumes "tide_correction e TIDE mi = Inr r" and "all_lower_triangular mi"
  shows "all_lower_triangular r"
proof (cases "TIDE = ''mean_tide'' \<or> TIDE = ''zero_tide''")
  case True
  from tide_correction_Inr[OF assms(1) True] assms(2) show ?thesis
    by (auto simp: all_lower_triangular_def dest: set_item_lower[where i = 2 and j = 0])
next
  case False
  then show ?thesis using assms by (simp add: tide_free_id)
qed

text \<open>The stages a successful call went through.\<close>

lemma read_Inr:
  "read_ICGEM_harmonics e p LMAX TIDE FLAG = Inr r \<longleftrightarrow>
     (\<exists>dates ls d L mi0 mi.
        filename_dates p = Inr dates \<and> file_lines e p = Some ls \<and> parse_header ls = Inr d \<and>
        truncation_degree LMAX d = Inr L \<and> allocate p L dates d = Inr mi0 \<and>
        for_loop (data_step e p L) (filter (prefix FLAG) ls) mi0 = Inr mi \<and>
        tide_correction e TIDE mi = Inr r)"
  unfolding read_ICGEM_harmonics_def open_lines_def
  by (auto simp: bind_err_Inr_iff split: option.splits)

lemma read_tide_split:
  "read_ICGEM_harmonics e p LMAX TIDE FLAG =
     bind_err (read_ICGEM_harmonics e p LMAX ''tide_free'' FLAG) (tide_correction e TIDE)"
  unfolding read_ICGEM_harmonics_def
  by (simp add: bind_err_assoc tide_free_id bind_err_Inr_right cong: if_cong)

lemma data_loop_well_shaped:
  assumes "for_loop (data_step e p L) ls mi0 = Inr mi" and "well_shaped p L mi0"
  shows "well_shaped p L mi"
  by (rule for_loop_invariant[OF assms(1), where P = "well_shaped p L", OF assms(2)])
     (rule data_step_well_shaped)

lemma data_loop_lower:
  assumes "for_loop (data_step e p L) ls mi0 = Inr mi" and "all_lower_triangular mi0"
    and "\<forall>line \<in> set ls. below_diagonal L line"
  shows "all_lower_triangular mi"
  by (rule for_loop_invariant[OF assms(1), where P = all_lower_triangular, OF assms(2)])
     (use assms(3) data_step_lower in blast)

subsection \<open>The example files, evaluated\<close>

lemma example_read_model:
  "read_ICGEM_harmonics example_env ''model.gfc'' None ''tide_free'' ''gfc'' =
     Inr \<lparr>time = None, start = None, end' = None,
          header = [(''modelname'', ''EXAMPLE''), (''earth_gravity_constant'', ''398600''),
                    (''radius'', ''6378''), (''errors'', ''formal''),
                    (''norm'', ''fully_normalized''), (''tide_system'', ''tide_free''),
                    (''max_degree'', ''2'')],
          clm = [[1, 0, 0], [2, 4, 0], [8, 10, 14]],
          slm = [[0, 0, 0], [0, 5, 0], [0, 11, 15]],
          eclm = Some [[0, 0, 0], [3, 6, 0], [9, 12, 16]],
          eslm = Some [[0, 0, 0], [0, 7, 0], [0, 13, 17]]\<rparr>"
  by code_simp


lemma example_read_degree1:
  "read_ICGEM_harmonics example_env ''degree1.gfc'' None ''tide_free'' ''gfc'' =
     Inr \<lparr>time = None, start = None, end' = None,
          header = [(''modelname'', ''EXAMPLE''), (''earth_gravity_constant'', ''398600''),
                    (''radius'', ''6378''), (''errors'', ''formal''),
                    (''norm'', ''fully_normalized''), (''tide_system'', ''tide_free''),
                    (''max_degree'', ''1'')],
          clm = [[1, 0], [2, 4]], slm = [[0, 0], [0, 5]],
          eclm = Some [[0, 0], [3, 6]], eslm = Some [[0, 0], [0, 7]]\<rparr>"
  by code_simp

lemma read_stagesI:
  assumes "filename_dates p = Inr dates" and "file_lines e p = Some ls"
    and "parse_header ls = Inr d" and "truncation_degree LMAX d = Inr L"
    and "allocate p L dates d = Inr mi0"
    and "for_loop (data_step e p L) (filter (prefix FLAG) ls) mi0 = Inr mi"
    and "tide_correction e TIDE mi = Inr r"
  shows "read_ICGEM_harmonics e p LMAX TIDE FLAG = Inr r"
  unfolding read_Inr using assms by blast

lemma filename_dates_ITSG:
  assumes "py_in ''ITSG'' p"
    and "pop (findall regex_pattern_ITSG (basename p)) = Inr [PFX, SAT, trunc, y, m, SFX]"
    and "py_int y = Inr year" and "py_int m = Inr month"
  shows "filename_dates p = Inr (Some (graz_swarm_dates year month))"
  by (simp add: filename_dates_def assms)

lemma filename_dates_SW:
  assumes "\<not> py_in ''ITSG'' p" and "py_in ''SW_'' p"
    and "pop (findall regex_pattern_SW (basename p)) = Inr [SAT, tmp, PR, start_date, end_date, RL, SFX]"
    and "py_int (take 4 start_date) = Inr year" and "py_int (take 2 (drop 4 start_date)) = Inr month"
  shows "filename_dates p = Inr (Some (graz_swarm_dates year month))"
  by (simp add: filename_dates_def assms)

lemmas dates_defs = graz_swarm_dates_def mid_day_def start_day_def end_day_def dpy_def dpm_def
  py_take_def julian_date_def

lemma graz_swarm_dates_2008_05:
  "graz_swarm_dates 2008 5 = (2008 + 137 / 366, 4909175 / 2, 4909235 / 2)"
  by (simp add: dates_defs)

lemma graz_swarm_dates_2013_12:
  "graz_swarm_dates 2013 12 = (2013 + 350 / 365, 4913255 / 2, 4913315 / 2)"
  by (simp add: dates_defs)

lemma example_dates_swarm:
  "filename_dates ''SW_OPER_EGF_SHA_2__20131201_20131231_0101.gfc'' =
     Inr (Some (2013 + 350 / 365, 4913255 / 2, 4913315 / 2))"
proof -
  let ?p = "''SW_OPER_EGF_SHA_2__20131201_20131231_0101.gfc''"
  have a: "\<not> py_in ''ITSG'' ?p" and b: "py_in ''SW_'' ?p" by code_simp+
  have c: "pop (findall regex_pattern_SW (basename ?p)) =
             Inr [''SW'', ''OPER'', ''EGF_SHA_2'', ''20131201'', ''20131231'', ''0101'', ''.gfc'']"
    by code_simp
  have d: "py_int (take 4 ''20131201'') = Inr 2013" "py_int (take 2 (drop 4 ''20131201'')) = Inr 12"
    by code_simp+
  show ?thesis
    using filename_dates_SW[OF a b c d] by (simp only: graz_swarm_dates_2013_12)
qed

lemma example_read_swarm:
  "read_ICGEM_harmonics example_env
     ''SW_OPER_EGF_SHA_2__20131201_20131231_0101.gfc'' None ''tide_free'' ''gfc'' =
     Inr \<lparr>time = Some (2013 + 350 / 365), start = Some (4913255 / 2),
          end' = Some (4913315 / 2),
          header = [(''modelname'', ''EXAMPLE''), (''earth_gravity_constant'', ''398600''),
                    (''radius'', ''6378''), (''errors'', ''formal''),
                    (''norm'', ''fully_normalized''), (''tide_system'', ''tide_free''),
                    (''max_degree'', ''1'')],
          clm = [[1, 0], [2, 4]], slm = [[0, 0], [0, 5]], eclm = None, eslm = None\<rparr>"
proof -
  let ?p = "''SW_OPER_EGF_SHA_2__20131201_20131231_0101.gfc''"
  let ?d = "[(''modelname'', ''EXAMPLE''), (''earth_gravity_constant'', ''398600''),
             (''radius'', ''6378''), (''errors'', ''formal''), (''norm'', ''fully_normalized''),
             (''tide_system'', ''tide_free''), (''max_degree'', ''1'')]"
  have sw: "py_in ''SW_'' ?p" by code_simp
  have f: "file_lines example_env ?p = Some example_lines_swarm" by code_simp
  have h: "parse_header example_lines_swarm = Inr ?d" by code_simp
  have t: "truncation_degree None ?d = Inr 1" by code_simp
  have al: "allocate ?p 1 (Some (2013 + 350 / 365, 4913255 / 2, 4913315 / 2)) ?d =
              Inr \<lparr>time = Some (2013 + 350 / 365), start = Some (4913255 / 2),
                   end' = Some (4913315 / 2), header = ?d,
                   clm = [[0, 0], [0, 0]], slm = [[0, 0], [0, 0]], eclm = None, eslm = None\<rparr>"
    using sw by (simp add: allocate_def zeros_def numeral_2_eq_2)
  have lp: "\<And>t s u. for_loop (data_step example_env ?p 1) (filter (prefix ''gfc'') example_lines_swarm)
              \<lparr>time = t, start = s, end' = u, header = ?d,
               clm = [[0, 0], [0, 0]], slm = [[0, 0], [0, 0]], eclm = None, eslm = None\<rparr> =
              Inr \<lparr>time = t, start = s, end' = u, header = ?d,
                   clm = [[1, 0], [2, 4]], slm = [[0, 0], [0, 5]], eclm = None, eslm = None\<rparr>"
    by code_simp
  show ?thesis
    by (rule read_stagesI[OF example_dates_swarm f h t al lp]) (simp add: tide_correction_def)
qed

lemma example_stages_model:
  "file_lines example_env ''model.gfc'' = Some example_lines"
  "parse_header example_lines =
     Inr [(''modelname'', ''EXAMPLE''), (''earth_gravity_constant'', ''398600''),
          (''radius'', ''6378''), (''errors'', ''formal''), (''norm'', ''fully_normalized''),
          (''tide_system'', ''tide_free''), (''max_degree'', ''2'')]"
  by code_simp+

lemma example_stages_degree1:
  "file_lines example_env ''degree1.gfc'' = Some example_lines_degree1"
  "parse_header example_lines_degree1 =
     Inr [(''modelname'', ''EXAMPLE''), (''earth_gravity_constant'', ''398600''),
          (''radius'', ''6378''), (''errors'', ''formal''), (''norm'', ''fully_normalized''),
          (''tide_system'', ''tide_free''), (''max_degree'', ''1'')]"
  by code_simp+

subsection \<open>Shapes and the error matrices\<close>

lemma read_well_shaped:
  assumes "read_ICGEM_harmonics e p LMAX TIDE FLAG = Inr r"
  shows "\<exists>ls d L. file_lines e p = Some ls \<and> parse_header ls = Inr d \<and>
           truncation_degree LMAX d = Inr L \<and> 0 \<le> L + 1 \<and> well_shaped p L r"
proof -
  from assms obtain dates ls d L mi0 mi where st:
    "file_lines e p = Some ls" "parse_header ls = Inr d" "truncation_degree LMAX d = Inr L"
    "allocate p L dates d = Inr mi0"
    "for_loop (data_step e p L) (filter (prefix FLAG) ls) mi0 = Inr mi"
    "tide_correction e TIDE mi = Inr r"
    unfolding read_Inr by blast
  have "well_shaped p L mi0" "0 \<le> L + 1" using allocate_Inr[OF st(4)] by simp_all
  then have "well_shaped p L mi" using data_loop_well_shaped[OF st(5)] by simp
  then have "well_shaped p L r" using tide_correction_well_shaped[OF st(6)] by simp
  with st \<open>0 \<le> L + 1\<close> show ?thesis by blast
qed

text \<open>
  C8.  When the path contains \<open>SW_\<close> the returned record has neither \<open>eclm\<close> nor
  \<open>eslm\<close>; for every other path both are present and have the shape of \<open>clm\<close> and
  \<open>slm\<close>.
\<close>

theorem error_matrices_absent_iff_swarm:
  assumes "read_ICGEM_harmonics e model_file LMAX TIDE FLAG = Inr r"
  shows "if py_in ''SW_'' model_file then eclm r = None \<and> eslm r = None
         else \<exists>n ec es. eclm r = Some ec \<and> eslm r = Some es \<and>
                shape (clm r) n n \<and> shape (slm r) n n \<and> shape ec n n \<and> shape es n n"
proof -
  from read_well_shaped[OF assms] obtain L where ws: "well_shaped model_file L r" by blast
  show ?thesis
  proof (cases "py_in ''SW_'' model_file")
    case True
    then show ?thesis using ws by (simp add: well_shaped_def Let_def)
  next
    case False
    then show ?thesis using ws
      by (auto simp: well_shaped_def Let_def split: option.splits)
  qed
qed

theorem error_matrices_absent_iff_swarm_witness:
  "(\<exists>r. read_ICGEM_harmonics example_env
           ''SW_OPER_EGF_SHA_2__20131201_20131231_0101.gfc'' None ''tide_free'' ''gfc''
           = Inr r \<and> eclm r = None \<and> eslm r = None) \<and>
   (\<exists>r n ec es. read_ICGEM_harmonics example_env ''model.gfc'' None ''tide_free'' ''gfc'' = Inr r \<and>
      eclm r = Some ec \<and> eslm r = Some es \<and>
      shape (clm r) n n \<and> shape (slm r) n n \<and> shape ec n n \<and> shape es n n)"
proof -
  have sw: "py_in ''SW_'' ''SW_OPER_EGF_SHA_2__20131201_20131231_0101.gfc''"
    by code_simp
  have ge: "\<not> py_in ''SW_'' ''model.gfc''" by code_simp
  show ?thesis
    using error_matrices_absent_iff_swarm[OF example_read_swarm]
      error_matrices_absent_iff_swarm[OF example_read_model] sw ge
      example_read_swarm example_read_model
    by (simp only: if_True if_False) blast
qed

subsection \<open>Lower-triangular coefficient matrices\<close>

lemma example_read_upper:
  "read_ICGEM_harmonics example_env ''upper.gfc'' None ''tide_free'' ''gfc'' =
     Inr \<lparr>time = None, start = None, end' = None,
          header = [(''modelname'', ''EXAMPLE''), (''earth_gravity_constant'', ''398600''),
                    (''radius'', ''6378''), (''errors'', ''formal''),
                    (''norm'', ''fully_normalized''), (''tide_system'', ''tide_free''),
                    (''max_degree'', ''2'')],
          clm = [[1, 0, 0], [0, 0, 4], [0, 0, 0]],
          slm = [[0, 0, 0], [0, 0, 5], [0, 0, 0]],
          eclm = Some [[0, 0, 0], [0, 0, 6], [0, 0, 0]],
          eslm = Some [[0, 0, 0], [0, 0, 7], [0, 0, 0]]\<rparr>"
  by code_simp





subsection \<open>The tide correction\<close>

lemma lookup_update_other:
  "k \<noteq> k' \<Longrightarrow> lookup (AList.update k' v d) k = lookup d k"
  by (simp add: lookup_def update_conv')

lemma get_item_in_range:
  assumes "shape m n n" and "a < n" and "b < n"
  shows "get_item m (int a) (int b) = Inr (m ! a ! b)"
    and "set_item m (int a) (int b) v = Inr (m[a := (m ! a)[b := v]])"
  using assms by (simp_all add: get_item_def set_item_def shape_length shape_nth)

lemma get_item_out_of_range:
  assumes "length m \<le> a"
  shows "get_item m (int a) j = Inl IndexError"
  using assms by (simp add: get_item_def norm_index_def)

lemma example_read_degree1_mean_tide:
  "read_ICGEM_harmonics example_env ''degree1.gfc'' None ''mean_tide'' ''gfc'' = Inl IndexError"
  by code_simp






subsection \<open>Dates from a GRAZ file name\<close>

lemma py_in_append: "py_in sub s \<Longrightarrow> py_in sub (q @ s)"
proof (induction q)
  case Nil
  then show ?case by simp
next
  case (Cons c q)
  then show ?case by simp
qed

lemma basename_suffix: "\<exists>q. p = q @ basename p"
proof -
  have "rev p = takeWhile (\<lambda>c. c \<noteq> CHR ''/'') (rev p) @ dropWhile (\<lambda>c. c \<noteq> CHR ''/'') (rev p)"
    by simp
  then have "p = rev (dropWhile (\<lambda>c. c \<noteq> CHR ''/'') (rev p)) @ basename p"
    unfolding basename_def by (metis rev_append rev_rev_ident)
  then show ?thesis by blast
qed

lemma py_in_basename: "py_in sub (basename p) \<Longrightarrow> py_in sub p"
  using basename_suffix[of p] py_in_append[of sub "basename p"] by metis

lemma filename_dates_graz_2008_05:
  assumes "basename p = ''ITSG-Grace2018_n96_2008-05.gfc''"
  shows "filename_dates p = Inr (Some (2008 + 137 / 366, 4909175 / 2, 4909235 / 2))"
proof -
  have "py_in ''ITSG'' (basename p)" unfolding assms by code_simp
  then have a: "py_in ''ITSG'' p" by (rule py_in_basename)
  have b: "pop (findall regex_pattern_ITSG (basename p)) =
             Inr [''ITSG'', ''Grace2018'', ''n96'', ''2008'', ''05'', ''.gfc'']"
    unfolding assms by code_simp
  have c: "py_int ''2008'' = Inr 2008" "py_int ''05'' = Inr 5" by code_simp+
  show ?thesis
    using filename_dates_ITSG[OF a b c] by (simp only: graz_swarm_dates_2008_05)
qed

lemma allocate_time: "allocate p L dates d = Inr mi \<Longrightarrow> time mi = map_option fst dates"
  unfolding allocate_def by (auto simp: bind_err_Inr_iff split: if_splits)

lemma data_loop_time:
  assumes "for_loop (data_step e p L) ls mi0 = Inr mi"
  shows "time mi = time mi0"
proof (rule for_loop_invariant[OF assms(1), where P = "\<lambda>s. time s = time mi0"])
  show "time mi0 = time mi0" by simp
next
  fix s a t assume "time s = time mi0" "data_step e p L s a = Inr t"
  then show "time t = time mi0" using data_step_frame[of e p L s a t] by simp
qed

lemma tide_correction_time: "tide_correction e TIDE mi = Inr r \<Longrightarrow> time r = time mi"
  unfolding tide_correction_def Let_def by (auto simp: bind_err_Inr_iff split: if_splits)

lemma read_time:
  assumes "read_ICGEM_harmonics e p LMAX TIDE FLAG = Inr r"
  shows "\<exists>dates. filename_dates p = Inr dates \<and> time r = map_option fst dates"
proof -
  from assms obtain dates ls d L mi0 mi where st:
    "filename_dates p = Inr dates" "allocate p L dates d = Inr mi0"
    "for_loop (data_step e p L) (filter (prefix FLAG) ls) mi0 = Inr mi"
    "tide_correction e TIDE mi = Inr r"
    unfolding read_Inr by blast
  have "time r = map_option fst dates"
    using allocate_time[OF st(2)] data_loop_time[OF st(3)] tide_correction_time[OF st(4)] by simp
  with st(1) show ?thesis by blast
qed

text \<open>
  C2, as the code has it.  2008 is divisible by 4, so the leap-year table is used
  (lines 147-149): May starts on day 122 and ends on day 152 of a year of 366 days, and
  the decimal year is not \<open>2008 + 136/365\<close>.
\<close>

theorem graz_2008_05_uses_leap_year:
  "start_day 2008 5 = 122 \<and> end_day 2008 5 = 152 \<and> mid_day 2008 5 = 137 \<and> dpy 2008 = 366 \<and>
   filename_dates ''ITSG-Grace2018_n96_2008-05.gfc'' =
     Inr (Some (2008 + 137 / 366, 4909175 / 2, 4909235 / 2)) \<and>
   (2008 + 137 / 366 :: real) \<noteq> 2008 + 136 / 365"
proof -
  have "basename ''ITSG-Grace2018_n96_2008-05.gfc'' = ''ITSG-Grace2018_n96_2008-05.gfc''"
    by code_simp
  then show ?thesis
    using filename_dates_graz_2008_05[of "''ITSG-Grace2018_n96_2008-05.gfc''"]
    by (simp add: dates_defs)
qed

text \<open>
  C2, amended.  Reading a file whose basename is \<open>ITSG-Grace2018_n96_2008-05.gfc\<close>
  extracts \<open>year = 2008\<close> and \<open>month = 5\<close>, and the temporal metadata computed from them is
  \<open>start_day = 122\<close>, \<open>end_day = 152\<close> (2008 is treated with the leap-year month-length
  table), so that the stored decimal-year time equals
  \<open>2008 + mid_day/days_per_year = 2008 + 137/366\<close>.
\<close>

theorem graz_2008_05_dates:
  assumes "basename model_file = ''ITSG-Grace2018_n96_2008-05.gfc''"
  shows "pop (findall regex_pattern_ITSG (basename model_file)) =
           Inr [''ITSG'', ''Grace2018'', ''n96'', ''2008'', ''05'', ''.gfc''] \<and>
         py_int ''2008'' = Inr 2008 \<and> py_int ''05'' = Inr 5 \<and>
         start_day 2008 5 = 122 \<and> end_day 2008 5 = 152 \<and>
         mid_day 2008 5 = 137 \<and> dpy 2008 = 366 \<and>
         filename_dates model_file = Inr (Some (2008 + 137 / 366, 4909175 / 2, 4909235 / 2)) \<and>
         (\<forall>e LMAX TIDE FLAG r. read_ICGEM_harmonics e model_file LMAX TIDE FLAG = Inr r \<longrightarrow>
            time r = Some (2008 + 137 / 366))"
proof -
  have a: "pop (findall regex_pattern_ITSG (basename model_file)) =
             Inr [''ITSG'', ''Grace2018'', ''n96'', ''2008'', ''05'', ''.gfc'']"
    unfolding assms by code_simp
  have b: "py_int ''2008'' = Inr 2008 \<and> py_int ''05'' = Inr 5" by code_simp
  have c: "start_day 2008 5 = 122 \<and> end_day 2008 5 = 152 \<and> mid_day 2008 5 = 137 \<and> dpy 2008 = 366"
    by (simp add: dates_defs)
  note d = filename_dates_graz_2008_05[OF assms]
  have e: "time r = Some (2008 + 137 / 366)"
    if "read_ICGEM_harmonics e model_file LMAX TIDE FLAG = Inr r" for e LMAX TIDE FLAG r
    using read_time[OF that] d by auto
  from a b c d e show ?thesis by blast
qed

lemma example_read_graz:
  "read_ICGEM_harmonics example_env ''/data/ITSG-Grace2018_n96_2008-05.gfc'' None ''tide_free'' ''gfc'' =
     Inr \<lparr>time = Some (2008 + 137 / 366), start = Some (4909175 / 2), end' = Some (4909235 / 2),
          header = [(''modelname'', ''EXAMPLE''), (''earth_gravity_constant'', ''398600''),
                    (''radius'', ''6378''), (''errors'', ''formal''),
                    (''norm'', ''fully_normalized''), (''tide_system'', ''tide_free''),
                    (''max_degree'', ''2'')],
          clm = [[1, 0, 0], [2, 4, 0], [8, 10, 14]],
          slm = [[0, 0, 0], [0, 5, 0], [0, 11, 15]],
          eclm = Some [[0, 0, 0], [3, 6, 0], [9, 12, 16]],
          eslm = Some [[0, 0, 0], [0, 7, 0], [0, 13, 17]]\<rparr>"
proof -
  let ?p = "''/data/ITSG-Grace2018_n96_2008-05.gfc''"
  let ?d = "[(''modelname'', ''EXAMPLE''), (''earth_gravity_constant'', ''398600''),
             (''radius'', ''6378''), (''errors'', ''formal''), (''norm'', ''fully_normalized''),
             (''tide_system'', ''tide_free''), (''max_degree'', ''2'')]"
  have bn: "basename ?p = ''ITSG-Grace2018_n96_2008-05.gfc''" by code_simp
  have sw: "\<not> py_in ''SW_'' ?p" by code_simp
  have f: "file_lines example_env ?p = Some example_lines" by code_simp
  have t: "truncation_degree None ?d = Inr 2" by code_simp
  have al: "allocate ?p 2 (Some (2008 + 137 / 366, 4909175 / 2, 4909235 / 2)) ?d =
              Inr \<lparr>time = Some (2008 + 137 / 366), start = Some (4909175 / 2),
                   end' = Some (4909235 / 2), header = ?d,
                   clm = [[0, 0, 0], [0, 0, 0], [0, 0, 0]], slm = [[0, 0, 0], [0, 0, 0], [0, 0, 0]],
                   eclm = Some [[0, 0, 0], [0, 0, 0], [0, 0, 0]],
                   eslm = Some [[0, 0, 0], [0, 0, 0], [0, 0, 0]]\<rparr>"
    using sw by (simp add: allocate_def zeros_def numeral_3_eq_3)
  have lp: "\<And>t s u. for_loop (data_step example_env ?p 2) (filter (prefix ''gfc'') example_lines)
              \<lparr>time = t, start = s, end' = u, header = ?d,
               clm = [[0, 0, 0], [0, 0, 0], [0, 0, 0]], slm = [[0, 0, 0], [0, 0, 0], [0, 0, 0]],
               eclm = Some [[0, 0, 0], [0, 0, 0], [0, 0, 0]],
               eslm = Some [[0, 0, 0], [0, 0, 0], [0, 0, 0]]\<rparr> =
              Inr \<lparr>time = t, start = s, end' = u, header = ?d,
                   clm = [[1, 0, 0], [2, 4, 0], [8, 10, 14]],
                   slm = [[0, 0, 0], [0, 5, 0], [0, 11, 15]],
                   eclm = Some [[0, 0, 0], [3, 6, 0], [9, 12, 16]],
                   eslm = Some [[0, 0, 0], [0, 7, 0], [0, 13, 17]]\<rparr>"
    by code_simp
  show ?thesis
    by (rule read_stagesI[OF filename_dates_graz_2008_05[OF bn] f example_stages_model(2) t al lp])
       (simp add: tide_correction_def)
qed

theorem graz_2008_05_dates_witness:
  "basename ''/data/ITSG-Grace2018_n96_2008-05.gfc'' = ''ITSG-Grace2018_n96_2008-05.gfc'' \<and>
   filename_dates ''/data/ITSG-Grace2018_n96_2008-05.gfc'' =
     Inr (Some (2008 + 137 / 366, 4909175 / 2, 4909235 / 2)) \<and>
   (\<exists>r. read_ICGEM_harmonics example_env ''/data/ITSG-Grace2018_n96_2008-05.gfc'' None
           ''tide_free'' ''gfc'' = Inr r \<and> time r = Some (2008 + 137 / 366))"
proof -
  have bn: "basename ''/data/ITSG-Grace2018_n96_2008-05.gfc'' = ''ITSG-Grace2018_n96_2008-05.gfc''"
    by code_simp
  show ?thesis
    using bn graz_2008_05_dates[OF bn] example_read_graz by blast
qed

subsection \<open>The truncation degree\<close>

lemma truncation_degree_given: "k \<noteq> 0 \<Longrightarrow> truncation_degree (Some k) d = Inr k"
  by (simp add: truncation_degree_def)

lemma truncation_degree_default:
  "truncation_degree None d = bind_err (lookup d ''max_degree'') py_int"
  by (simp add: truncation_degree_def)

lemma data_step_truncated:
  assumes "degree_order line = Inr (l1, m1)" and "L < l1 \<or> L < m1"
  shows "data_step e p L mi line = Inr mi"
proof -
  from assms(1) obtain a b where ab:
    "bind_err (py_index (py_split (sub_d_e line)) 1) py_int = Inr a"
    "bind_err (py_index (py_split (sub_d_e line)) 2) py_int = Inr b" "a = l1" "b = m1"
    unfolding degree_order_def Let_def by (auto simp: bind_err_Inr_iff)
  show ?thesis
    unfolding data_step_def Let_def using ab assms(2) by auto
qed

lemma read_truncated_shape:
  assumes "read_ICGEM_harmonics e p (Some k) TIDE FLAG = Inr r" and "k \<noteq> 0"
  shows "well_shaped p k r"
  using read_well_shaped[OF assms(1)] truncation_degree_given[OF assms(2)] by auto

text \<open>
  C3, at \<open>lmax = 0\<close>.  The test \<open>not LMAX\<close> of line 205 holds for \<open>0\<close> as it does for
  \<open>None\<close>: the model of degree 2 read with \<open>lmax = 0\<close> comes back with 3 x 3 matrices
  holding every line of degree 1 and 2, where a truncation at degree 0 gives 1 x 1 matrices.
\<close>

theorem truncation_zero_reads_header_degree:
  "read_ICGEM_harmonics example_env ''model.gfc'' (Some 0) ''tide_free'' ''gfc'' =
     Inr \<lparr>time = None, start = None, end' = None,
          header = [(''modelname'', ''EXAMPLE''), (''earth_gravity_constant'', ''398600''),
                    (''radius'', ''6378''), (''errors'', ''formal''),
                    (''norm'', ''fully_normalized''), (''tide_system'', ''tide_free''),
                    (''max_degree'', ''2'')],
          clm = [[1, 0, 0], [2, 4, 0], [8, 10, 14]],
          slm = [[0, 0, 0], [0, 5, 0], [0, 11, 15]],
          eclm = Some [[0, 0, 0], [3, 6, 0], [9, 12, 16]],
          eslm = Some [[0, 0, 0], [0, 7, 0], [0, 13, 17]]\<rparr>"
  by code_simp

subsection \<open>Format dispatch on the whole path\<close>

lemma read_fails_in_filename:
  "filename_dates p = Inl err \<Longrightarrow> read_ICGEM_harmonics e p LMAX TIDE FLAG = Inl err"
  by (simp add: read_ICGEM_harmonics_def)

lemma example_read_graz_in_swarm_directory:
  "read_ICGEM_harmonics example_env ''/SW_archive/ITSG-Grace2018_n96_2008-05.gfc'' None
     ''tide_free'' ''gfc'' =
     Inr \<lparr>time = Some (2008 + 137 / 366), start = Some (4909175 / 2), end' = Some (4909235 / 2),
          header = [(''modelname'', ''EXAMPLE''), (''earth_gravity_constant'', ''398600''),
                    (''radius'', ''6378''), (''errors'', ''formal''),
                    (''norm'', ''fully_normalized''), (''tide_system'', ''tide_free''),
                    (''max_degree'', ''2'')],
          clm = [[1, 0, 0], [2, 4, 0], [8, 10, 14]],
          slm = [[0, 0, 0], [0, 5, 0], [0, 11, 15]],
          eclm = None, eslm = None\<rparr>"
proof -
  let ?p = "''/SW_archive/ITSG-Grace2018_n96_2008-05.gfc''"
  let ?d = "[(''modelname'', ''EXAMPLE''), (''earth_gravity_constant'', ''398600''),
             (''radius'', ''6378''), (''errors'', ''formal''), (''norm'', ''fully_normalized''),
             (''tide_system'', ''tide_free''), (''max_degree'', ''2'')]"
  have bn: "basename ?p = ''ITSG-Grace2018_n96_2008-05.gfc''" by code_simp
  have sw: "py_in ''SW_'' ?p" by code_simp
  have f: "file_lines example_env ?p = Some example_lines" by code_simp
  have t: "truncation_degree None ?d = Inr 2" by code_simp
  have al: "allocate ?p 2 (Some (2008 + 137 / 366, 4909175 / 2, 4909235 / 2)) ?d =
              Inr \<lparr>time = Some (2008 + 137 / 366), start = Some (4909175 / 2),
                   end' = Some (4909235 / 2), header = ?d,
                   clm = [[0, 0, 0], [0, 0, 0], [0, 0, 0]], slm = [[0, 0, 0], [0, 0, 0], [0, 0, 0]],
                   eclm = None, eslm = None\<rparr>"
    using sw by (simp add: allocate_def zeros_def numeral_3_eq_3)
  have lp: "\<And>t s u. for_loop (data_step example_env ?p 2) (filter (prefix ''gfc'') example_lines)
              \<lparr>time = t, start = s, end' = u, header = ?d,
               clm = [[0, 0, 0], [0, 0, 0], [0, 0, 0]], slm = [[0, 0, 0], [0, 0, 0], [0, 0, 0]],
               eclm = None, eslm = None\<rparr> =
              Inr \<lparr>time = t, start = s, end' = u, header = ?d,
                   clm = [[1, 0, 0], [2, 4, 0], [8, 10, 14]],
                   slm = [[0, 0, 0], [0, 5, 0], [0, 11, 15]],
                   eclm = None, eslm = None\<rparr>"
    by code_simp
  show ?thesis
    by (rule read_stagesI[OF filename_dates_graz_2008_05[OF bn] f example_stages_model(2) t al lp])
       (simp add: tide_correction_def)
qed


end
